theory Spec2Isabelle
  imports Main
begin

section \<open>The action creators of packages/gatsby/src/redux/actions.js\<close>

text \<open>
  Every action creator of the module is a function from its arguments to the action object
  it returns. What the JavaScript does besides returning is written out:
  \<^item> a \<^verbatim>\<open>throw\<close>, \<^verbatim>\<open>process.exit(1)\<close> and a read of a property of
    \<^verbatim>\<open>undefined\<close> are values of type \<open>error\<close> (\<open>Inl\<close> of the result);
  \<^item> \<^verbatim>\<open>return null\<close> and the \<^verbatim>\<open>undefined\<close> that \<^verbatim>\<open>console.log\<close>
    returns are the result \<open>None\<close>, an action \<open>a\<close> is \<open>Some a\<close>;
  \<^item> the caller's node object, which \<^verbatim>\<open>createNode\<close>, \<^verbatim>\<open>createNodeField\<close> and
    \<^verbatim>\<open>createParentChildLink\<close> write to, is returned as it is after the call, on
    every path, also the failing ones;
  \<^item> the module variable \<^verbatim>\<open>typeOwners\<close> and the redux store are fields of \<open>State\<close>;
  \<^item> the lines written with \<^verbatim>\<open>console.log\<close> are returned as a list;
  \<^item> the functions imported from other modules (lodash, Joi, glob, path, the uuid and
    path utilities, the Joi schemas) are the fields of \<open>Env\<close>: the theorems hold for
    every such environment.
  An optional property is an \<open>option\<close>. A JavaScript object used as a dictionary is the
  map of its own properties; reading and writing it by key goes through \<open>getProperty\<close>
  and \<open>setProperty\<close>, which take in the properties that every ordinary object inherits
  from \<^verbatim>\<open>Object.prototype\<close>.
\<close>

subsection \<open>JavaScript values\<close>

datatype jsval =
    JUndefined
  | JNull
  | JBool bool
  | JNum int
  | JStr string
  | JObject "(string \<times> jsval) list"

text \<open>The truth value of a value in a condition (numbers are the integral ones).\<close>

fun truthy :: "jsval \<Rightarrow> bool" where
  "truthy JUndefined = False"
| "truthy JNull = False"
| "truthy (JBool b) = b"
| "truthy (JNum n) = (n \<noteq> 0)"
| "truthy (JStr s) = (s \<noteq> [])"
| "truthy (JObject kvs) = True"

text \<open>An optional string in a condition: \<^verbatim>\<open>undefined\<close> and the empty string are falsy.\<close>

fun truthy_str :: "string option \<Rightarrow> bool" where
  "truthy_str None = False"
| "truthy_str (Some s) = (s \<noteq> [])"

text \<open>An optional string as a property key or inside a template literal.\<close>

fun to_string :: "string option \<Rightarrow> string" where
  "to_string None = ''undefined''"
| "to_string (Some s) = s"

subsection \<open>Objects as dictionaries\<close>

text \<open>
  \<^verbatim>\<open>typeOwners\<close>, \<^verbatim>\<open>node.internal.fieldOwners\<close> and \<^verbatim>\<open>node.fields\<close> are ordinary
  objects (\<^verbatim>\<open>{}\<close> where the module creates them), read and written with
  \<^verbatim>\<open>obj[key]\<close>. Such an object has its own properties, here a map, and inherits the
  properties of \<^verbatim>\<open>Object.prototype\<close>, whose names are these
  (\<^verbatim>\<open>Object.getOwnPropertyNames(Object.prototype)\<close> in Node.js).
\<close>

definition objectPrototypeKeys :: "string list" where
  "objectPrototypeKeys =
     [''constructor'', ''__defineGetter__'', ''__defineSetter__'', ''hasOwnProperty'',
      ''__lookupGetter__'', ''__lookupSetter__'', ''isPrototypeOf'', ''propertyIsEnumerable'',
      ''toString'', ''valueOf'', ''__proto__'', ''toLocaleString'']"

text \<open>
  What \<^verbatim>\<open>obj[key]\<close> reads: \<^verbatim>\<open>undefined\<close>, the value of an own property, or an
  inherited member of \<^verbatim>\<open>Object.prototype\<close> (a function; for \<^verbatim>\<open>__proto__\<close> the
  prototype object itself). An inherited member is truthy and is never \<^verbatim>\<open>===\<close> to a
  string.
\<close>

datatype 'a property = Undefined | Own 'a | Inherited

definition getProperty :: "(string \<rightharpoonup> 'a) \<Rightarrow> string \<Rightarrow> 'a property" where
  "getProperty obj key =
     (case obj key of
        Some v \<Rightarrow> Own v
      | None \<Rightarrow> if key \<in> set objectPrototypeKeys then Inherited else Undefined)"

fun truthy_prop :: "string property \<Rightarrow> bool" where
  "truthy_prop Undefined = False"
| "truthy_prop (Own s) = (s \<noteq> [])"
| "truthy_prop Inherited = True"

text \<open>
  What \<^verbatim>\<open>obj[key] = v\<close> does to the own properties: it creates or updates the own
  property, except for the key \<^verbatim>\<open>__proto__\<close> without an own property, where the
  assignment goes to the inherited setter and creates nothing. (That setter replaces the
  object's prototype when \<^verbatim>\<open>v\<close> is an object or \<^verbatim>\<open>null\<close>; the module writes
  \<^verbatim>\<open>__proto__\<close> this way only to \<^verbatim>\<open>node.fields\<close>, which it never reads by key.)
\<close>

definition setProperty :: "(string \<rightharpoonup> 'a) \<Rightarrow> string \<Rightarrow> 'a \<Rightarrow> (string \<rightharpoonup> 'a)" where
  "setProperty obj key v =
     (if key = ''__proto__'' \<and> obj key = None then obj else obj(key \<mapsto> v))"

subsection \<open>Plugins and nodes\<close>

record Plugin =
  name :: string

record Internal =
  type :: "string option"
  contentDigest :: "string option"
  owner :: "string option"
  fieldOwners :: "(string \<rightharpoonup> string) option"

record Node =
  id :: string
  children :: "string list"
  internal :: "Internal option"
  fields' :: "(string \<rightharpoonup> jsval) option"

text \<open>
  The property \<^verbatim>\<open>fields\<close> of a node is the field \<open>fields'\<close> (the record package
  keeps \<open>fields\<close> for itself).
\<close>

definition empty_internal :: Internal where
  "empty_internal = \<lparr>type = None, contentDigest = None, owner = None, fieldOwners = None\<rparr>"

subsection \<open>lodash's uniq\<close>

text \<open>
  \<^verbatim>\<open>_.uniq\<close> walks the array from the left and keeps a value when it is not yet in the
  result, so the first occurrence of every value stays, in order.
\<close>

fun baseUniq :: "'a list \<Rightarrow> 'a list \<Rightarrow> 'a list" where
  "baseUniq [] result = result"
| "baseUniq (x # xs) result =
     (if x \<in> set result then baseUniq xs result else baseUniq xs (result @ [x]))"

definition uniq :: "'a list \<Rightarrow> 'a list" where
  "uniq xs = baseUniq xs []"

subsection \<open>Pages, layouts, jobs and redirects\<close>

text \<open>
  Two JavaScript types with a property of the same name cannot both keep it as a record
  field. The internal page keeps the plain names; the argument \<^verbatim>\<open>page\<close> of
  \<^verbatim>\<open>createPage\<close> has \<open>page_path\<close> for \<^verbatim>\<open>page.path\<close>, the argument \<^verbatim>\<open>layout\<close>
  of \<^verbatim>\<open>createLayout\<close> has \<open>layout_id\<close> for \<^verbatim>\<open>layout.id\<close>, the internal layout has
  the prefix \<open>l\<close>, and the argument of \<^verbatim>\<open>createRedirect\<close> has the prefix \<open>redirect_\<close>.
  The property \<^verbatim>\<open>context\<close> of the internal page is the field \<open>context'\<close>.
\<close>

record PageInput =
  page_path :: string
  page_component :: string
  page_layout :: "string option"
  page_context :: "(string \<rightharpoonup> jsval) option"
  page_matchPath :: "string option"

record Page =
  layout :: "string option"
  jsonName :: string
  internalComponentName :: string
  path :: string
  matchPath :: "string option"
  component :: string
  componentChunkName :: string
  context' :: "string \<rightharpoonup> jsval"
  updatedAt :: int

record LayoutInput =
  layout_id :: "string option"
  layout_component :: string
  layout_context :: "(string \<rightharpoonup> jsval) option"

record Layout =
  lid :: string
  machineId :: string
  componentWrapperPath :: string
  isLayout :: bool
  ljsonName :: string
  linternalComponentName :: string
  lcomponent :: string
  lcomponentChunkName :: string
  lcontext :: "string \<rightharpoonup> jsval"

record Job =
  job_id :: string

record RedirectInput =
  redirect_fromPath :: "string option"
  redirect_isPermanent :: jsval
  redirect_redirectInBrowser :: jsval
  redirect_toPath :: "string option"
  redirect_rest :: "(string \<times> jsval) list"

record Redirect =
  fromPath :: string
  isPermanent :: jsval
  redirectInBrowser :: jsval
  toPath :: string
  rest :: "(string \<times> jsval) list"

subsection \<open>Actions, errors, console output\<close>

text \<open>An argument typed \<^verbatim>\<open>any\<close> that the code expects to be a node object.\<close>

datatype NodeArg = NonObject | Obj Node

text \<open>
  One constructor for each \<^verbatim>\<open>type\<close> of action; the arguments are the other properties
  of the action object in the order of the source (\<^verbatim>\<open>plugin\<close>, \<^verbatim>\<open>traceId\<close>,
  \<^verbatim>\<open>node\<close>, \<^verbatim>\<open>payload\<close>). \<open>VALIDATION_ERROR\<close> is
  \<^verbatim>\<open>{ type: `VALIDATION_ERROR`, error: true }\<close>.
\<close>

datatype action =
    DELETE_PAGE PageInput
  | CREATE_PAGE "Plugin option" "string option" Page
  | DELETE_LAYOUT Layout
  | CREATE_LAYOUT "Plugin option" "string option" Layout
  | DELETE_NODE Plugin NodeArg string
  | DELETE_NODES Plugin "string list"
  | VALIDATION_ERROR
  | TOUCH_NODE "Plugin option" "string option" string
  | CREATE_NODE "Plugin option" "string option" Node
  | ADD_FIELD_TO_NODE Plugin "string option" Node
  | ADD_CHILD_NODE_TO_PARENT_NODE "Plugin option" Node
  | CREATE_COMPONENT_DEPENDENCY string string string string
  | DELETE_COMPONENTS_DEPENDENCIES "string list"
  | REPLACE_COMPONENT_QUERY string string
  | SET_WEBPACK_CONFIG jsval
  | REPLACE_WEBPACK_CONFIG jsval
  | CREATE_JOB "Plugin option" Job
  | SET_JOB "Plugin option" Job
  | END_JOB "Plugin option" Job
  | SET_PLUGIN_STATUS Plugin "(string \<times> jsval) list"
  | CREATE_REDIRECT Redirect

text \<open>
  The ways a call ends without returning: \<^verbatim>\<open>process.exit(1)\<close>, the four
  \<^verbatim>\<open>throw new Error\<close> with the values their messages print, and the TypeError of
  reading a property of \<^verbatim>\<open>undefined\<close>.
\<close>

datatype error =
    ProcessExit nat
  | ReservedFields Node "Plugin option"
  | TypeOwnedByAnotherPlugin string string "string property" Node Plugin
  | NodeOwnedByAnotherPlugin string "string option" string
  | FieldOwnedByAnotherPlugin string string string jsval
  | TypeError

datatype log_entry =
    Log_text string
  | Log_error string
  | Log_node Node
  | Log_page Page
  | Log_layout Layout
  | Warn string

subsection \<open>The store, the module state and the imported functions\<close>

text \<open>
  \<open>directory\<close> and \<open>prefixPaths\<close> are \<^verbatim>\<open>store.getState().program\<close>, \<open>pathPrefix\<close> is
  \<^verbatim>\<open>store.getState().config.pathPrefix\<close>, \<open>nodes\<close> the stored nodes by id,
  \<open>typeOwners\<close> the module variable of line 264, and \<open>tracked\<close> the nodes that were
  handed to \<^verbatim>\<open>trackSubObjectsToRootNodeId\<close>, in order.
\<close>

record State =
  directory :: string
  prefixPaths :: bool
  pathPrefix :: "string option"
  nodes :: "string \<rightharpoonup> Node"
  typeOwners :: "string \<rightharpoonup> string"
  tracked :: "Node list"

text \<open>
  The imported functions. \<open>validate_node\<close>, \<open>validate_page\<close> and \<open>validate_layout\<close> are
  \<^verbatim>\<open>Joi.validate(x, schema).error\<close> for the three schemas (\<open>None\<close> when the record
  passes); \<open>parse_name\<close> is \<^verbatim>\<open>path.parse(p).name\<close>; \<open>now\<close> is \<^verbatim>\<open>Date.now()\<close>.
\<close>

record Env =
  createUuid :: "string \<Rightarrow> string \<Rightarrow> string"
  validate_node :: "Node \<Rightarrow> string option"
  validate_page :: "Page \<Rightarrow> string option"
  validate_layout :: "Layout \<Rightarrow> string option"
  kebabCase :: "string \<Rightarrow> string"
  camelCase :: "string \<Rightarrow> string"
  upperFirst :: "string \<Rightarrow> string"
  glob_sync :: "string \<Rightarrow> string list"
  joinPath :: "string list \<Rightarrow> string"
  parse_name :: "string \<Rightarrow> string"
  generateComponentChunkName :: "string \<Rightarrow> string"
  now :: int

text \<open>\<^verbatim>\<open>const pascalCase = _.flow(_.camelCase, _.upperFirst)\<close>\<close>

definition pascalCase :: "Env \<Rightarrow> string \<Rightarrow> string" where
  "pascalCase env s = upperFirst env (camelCase env s)"

text \<open>
  Modelled from the spec: \<^verbatim>\<open>getNode\<close> of redux/index.js, which is not among the
  sources; section 6 lists \<^verbatim>\<open>getNode(id)\<close> as the lookup of a stored node.
\<close>

definition getNode :: "State \<Rightarrow> string \<Rightarrow> Node option" where
  "getNode st nodeId = nodes st nodeId"

text \<open>
  Modelled from the spec: the stored digest of a node id and the Change Detector of
  section 4.4 (\<^verbatim>\<open>hasNodeChanged\<close> of redux/index.js is not among the sources):
  stored digest absent, New; present and equal, Unchanged; present and different, Changed.
\<close>

datatype change = New | Changed | Unchanged

definition storedDigest :: "State \<Rightarrow> string \<Rightarrow> string option" where
  "storedDigest st nodeId =
     (case nodes st nodeId of
        None \<Rightarrow> None
      | Some n \<Rightarrow> (case internal n of None \<Rightarrow> None | Some i \<Rightarrow> contentDigest i))"

definition classify :: "State \<Rightarrow> string \<Rightarrow> string option \<Rightarrow> change" where
  "classify st nodeId incomingDigest =
     (case storedDigest st nodeId of
        None \<Rightarrow> New
      | Some d \<Rightarrow> (if incomingDigest = Some d then Unchanged else Changed))"

definition hasNodeChanged :: "State \<Rightarrow> string \<Rightarrow> string option \<Rightarrow> bool" where
  "hasNodeChanged st nodeId digest = (classify st nodeId digest \<noteq> Unchanged)"

subsection \<open>Pages and layouts\<close>


text \<open>
  \<^verbatim>\<open>createPage\<close>, lines 105 to 156, in two parts: \<open>internalPage\<close> is the object
  of that name after line 140, \<open>createPage\<close> validates it and returns. The result is the
  returned action (\<open>None\<close> for \<^verbatim>\<open>return null\<close>) and what was written to the console.
\<close>

definition internalPage :: "Env \<Rightarrow> State \<Rightarrow> PageInput \<Rightarrow> Page" where
  "internalPage env st page =
     (let jsonName0 = kebabCase env (page_path page) @ ''.json'';
          internalComponentName0 = ''Component'' @ pascalCase env (page_path page);
          jsonName1 = (if jsonName0 = ''.json'' then ''index.json'' else jsonName0);
          internalComponentName1 =
            (if jsonName0 = ''.json'' then ''ComponentIndex'' else internalComponentName0);
          layout0 = (if truthy_str (page_layout page) then page_layout page else None);
          layout1 =
            (if \<not> truthy_str layout0 \<and>
                length (glob_sync env (joinPath env [directory st, ''src/layouts/index.*''])) \<noteq> 0
             then Some ''index'' else layout0);
          internalPage0 =
            \<lparr>layout = layout1,
             jsonName = jsonName1,
             internalComponentName = internalComponentName1,
             path = page_path page,
             matchPath = page_matchPath page,
             component = page_component page,
             componentChunkName = generateComponentChunkName env (page_component page),
             context' = (case page_context page of None \<Rightarrow> Map.empty | Some c \<Rightarrow> c),
             updatedAt = now env\<rparr>
      in if (case path internalPage0 of [] \<Rightarrow> True | c # cs \<Rightarrow> c \<noteq> CHR ''/'')
         then internalPage0\<lparr>path := ''/'' @ path internalPage0\<rparr>
         else internalPage0)"

definition createPage ::
  "Env \<Rightarrow> State \<Rightarrow> PageInput \<Rightarrow> Plugin option \<Rightarrow> string option \<Rightarrow> action option \<times> log_entry list" where
  "createPage env st page plugin traceId =
     (case validate_page env (internalPage env st page) of
        Some err \<Rightarrow>
          (None,
           [Log_text ''The upserted page didn't pass validation'',
            Log_error err,
            Log_page (internalPage env st page)])
      | None \<Rightarrow> (Some (CREATE_PAGE plugin traceId (internalPage env st page)), []))"


text \<open>
  \<^verbatim>\<open>createLayout\<close>, lines 186 to 232, in two parts: \<open>internalLayout\<close> is the object
  of that name (line 213), \<open>createLayout\<close> validates it and returns. The argument
  \<^verbatim>\<open>layout\<close> is \<open>layoutInput\<close>.
\<close>

definition internalLayout :: "Env \<Rightarrow> State \<Rightarrow> LayoutInput \<Rightarrow> Layout" where
  "internalLayout env st layoutInput =
     (let id0 = (if truthy_str (layout_id layoutInput) then to_string (layout_id layoutInput)
                 else parse_name env (layout_component layoutInput));
          machineId0 = ''layout---'' @ id0;
          componentWrapperPath0 = joinPath env [directory st, ''.cache'', ''layouts'', id0 @ ''.js'']
      in \<lparr>lid = id0,
          machineId = machineId0,
          componentWrapperPath = componentWrapperPath0,
          isLayout = True,
          ljsonName = ''layout-'' @ kebabCase env id0 @ ''.json'',
          linternalComponentName = ''Component-layout-'' @ pascalCase env id0,
          lcomponent = layout_component layoutInput,
          lcomponentChunkName = generateComponentChunkName env (layout_component layoutInput),
          lcontext = (case layout_context layoutInput of None \<Rightarrow> Map.empty | Some c \<Rightarrow> c)\<rparr>)"

definition createLayout ::
  "Env \<Rightarrow> State \<Rightarrow> LayoutInput \<Rightarrow> Plugin option \<Rightarrow> string option \<Rightarrow> action option \<times> log_entry list" where
  "createLayout env st layoutInput plugin traceId =
     (case validate_layout env (internalLayout env st layoutInput) of
        Some err \<Rightarrow>
          (None,
           [Log_text ''The upserted layout didn't pass validation'',
            Log_error err,
            Log_layout (internalLayout env st layoutInput)])
      | None \<Rightarrow> (Some (CREATE_LAYOUT plugin traceId (internalLayout env st layoutInput)), []))"

subsection \<open>Nodes\<close>



text \<open>
  What a call of \<^verbatim>\<open>createNode\<close> leaves behind: \<open>result\<close> is the returned value or the
  error, \<open>node_after\<close> the caller's node object after the call, \<open>state_after\<close> the
  state after the call, \<open>console\<close> the lines written.
\<close>

record Outcome =
  result :: "error + action option"
  node_after :: NodeArg
  state_after :: State
  console :: "log_entry list"

text \<open>
  \<^verbatim>\<open>createNode\<close>, lines 322 to 443, with its four blocks as functions of their own.
  Lines 331 to 334: the node gets an \<^verbatim>\<open>internal\<close> object when it has none.
\<close>

definition internalOf :: "Node \<Rightarrow> Internal" where
  "internalOf node = (case internal node of None \<Rightarrow> empty_internal | Some i \<Rightarrow> i)"

definition ensureInternal :: "Node \<Rightarrow> Node" where
  "ensureInternal node = node\<lparr>internal := Some (internalOf node)\<rparr>"

text \<open>
  Lines 347 to 351: with a plugin, the owner is written into \<^verbatim>\<open>node.internal\<close> and the
  id is replaced by \<^verbatim>\<open>createUuid(node.id, plugin.name)\<close>.
\<close>

definition addOwner :: "Env \<Rightarrow> Node \<Rightarrow> Plugin option \<Rightarrow> Node" where
  "addOwner env node plugin =
     (case plugin of
        None \<Rightarrow> node
      | Some p \<Rightarrow>
          node\<lparr>internal := Some ((internalOf node)\<lparr>owner := Some (name p)\<rparr>),
                id := createUuid env (id node) (name p)\<rparr>)"

text \<open>
  Lines 389 to 411: the type of the node is claimed for the plugin when
  \<^verbatim>\<open>typeOwners[node.internal.type]\<close> is falsy; a truthy value other than the
  plugin's name throws, with that value in the error. The result is the error or the
  state after the block.
\<close>

definition claimType :: "State \<Rightarrow> Node \<Rightarrow> Plugin \<Rightarrow> error + State" where
  "claimType st node plugin =
     (let pluginName = name plugin;
          key = to_string (type (internalOf node));
          typeOwner = getProperty (typeOwners st) key
      in if \<not> truthy_prop typeOwner then
           Inr (st\<lparr>typeOwners := setProperty (typeOwners st) key pluginName\<rparr>)
         else if typeOwner \<noteq> Own pluginName then
           Inl (TypeOwnedByAnotherPlugin pluginName key typeOwner node plugin)
         else Inr st)"

text \<open>
  Lines 413 to 424: a stored node of another owner throws; reading the owner of a stored
  node without \<^verbatim>\<open>internal\<close> is a TypeError.
\<close>

definition checkNodeOwner :: "Node option \<Rightarrow> Node \<Rightarrow> Plugin \<Rightarrow> error option" where
  "checkNodeOwner oldNode node plugin =
     (case oldNode of
        None \<Rightarrow> None
      | Some old \<Rightarrow>
          (case internal old of
             None \<Rightarrow> Some TypeError
           | Some oldInternal \<Rightarrow>
               if owner oldInternal \<noteq> Some (name plugin) then
                 Some (NodeOwnedByAnotherPlugin (id node) (owner oldInternal) (name plugin))
               else None))"

text \<open>
  The whole function. \<open>node1\<close> is the node after line 334, \<open>node2\<close> after line 351,
  \<open>st1\<close> the state after line 382; \<open>checked\<close> is the block of lines 388 to 425: the
  error it throws, if any, and the state it leaves.
\<close>

definition createNode :: "Env \<Rightarrow> State \<Rightarrow> NodeArg \<Rightarrow> Plugin option \<Rightarrow> string option \<Rightarrow> Outcome" where
  \<open>createNode env st arg plugin traceId =
     (case arg of
        NonObject \<Rightarrow>
          \<lparr>result = Inr None, node_after = NonObject, state_after = st,
           console =
             [Log_text ''The node passed to the "createNode" action creator must be an object'']\<rparr>
      | Obj node0 \<Rightarrow>
          (let node1 = ensureInternal node0
           in if truthy_str (owner (internalOf node1)) then
                \<lparr>result = Inl (ProcessExit 1), node_after = Obj node1, state_after = st,
                 console =
                   [Log_node node1,
                    Log_text ''The node internal.owner field is set automatically by Gatsby and not by plugin'']\<rparr>
              else
                (let node2 = addOwner env node1 plugin
                 in case validate_node env node2 of
                      Some err \<Rightarrow>
                        \<lparr>result = Inr (Some VALIDATION_ERROR), node_after = Obj node2,
                         state_after = st,
                         console =
                           [Log_text ''The new node didn't pass validation'',
                            Log_error err,
                            Log_node node2]\<rparr>
                    | None \<Rightarrow>
                        if fields' node2 \<noteq> None then
                          \<lparr>result = Inl (ReservedFields node2 plugin), node_after = Obj node2,
                           state_after = st, console = []\<rparr>
                        else
                          (let st1 = st\<lparr>tracked := tracked st @ [node2]\<rparr>;
                               oldNode = getNode st1 (id node2);
                               checked =
                                 (case plugin of
                                    None \<Rightarrow> (None, st1)
                                  | Some p \<Rightarrow>
                                      (case claimType st1 node2 p of
                                         Inl e \<Rightarrow> (Some e, st1)
                                       | Inr st2 \<Rightarrow> (checkNodeOwner oldNode node2 p, st2)))
                           in case checked of
                                (Some e, st2) \<Rightarrow>
                                  \<lparr>result = Inl e, node_after = Obj node2, state_after = st2,
                                   console = []\<rparr>
                              | (None, st2) \<Rightarrow>
                                  \<lparr>result =
                                     Inr (Some
                                       (if oldNode \<noteq> None \<and>
                                           \<not> hasNodeChanged st2 (id node2)
                                                (contentDigest (internalOf node2))
                                        then TOUCH_NODE plugin traceId (id node2)
                                        else CREATE_NODE plugin traceId node2)),
                                   node_after = Obj node2, state_after = st2, console = []\<rparr>))))\<close>

text \<open>\<^verbatim>\<open>touchNode\<close>, lines 455 to 461: the action has no \<^verbatim>\<open>traceId\<close>.\<close>

definition touchNode :: "string \<Rightarrow> Plugin option \<Rightarrow> action" where
  "touchNode nodeId plugin = TOUCH_NODE plugin None nodeId"

text \<open>
  \<^verbatim>\<open>createNodeField\<close>, lines 492 to 546. The arguments are the destructured properties
  \<^verbatim>\<open>node\<close>, \<^verbatim>\<open>name\<close>, \<^verbatim>\<open>value\<close>, \<^verbatim>\<open>fieldName\<close>, \<^verbatim>\<open>fieldValue\<close>, then
  \<^verbatim>\<open>plugin\<close> and \<^verbatim>\<open>traceId\<close>; an absent value is \<open>JUndefined\<close>.

  Lines 497 to 512: the deprecated \<^verbatim>\<open>fieldName\<close> and \<^verbatim>\<open>fieldValue\<close> stand in for a
  falsy \<^verbatim>\<open>name\<close> and \<^verbatim>\<open>value\<close>. \<open>fieldKey\<close> is the property key that
  \<^verbatim>\<open>node.fields[name]\<close> then uses.
\<close>

definition effectiveName :: "string option \<Rightarrow> string option \<Rightarrow> string option" where
  "effectiveName name0 fieldName =
     (if truthy_str fieldName then (if \<not> truthy_str name0 then fieldName else name0) else name0)"

definition effectiveValue :: "jsval \<Rightarrow> jsval \<Rightarrow> jsval" where
  "effectiveValue value0 fieldValue =
     (if truthy fieldValue then (if \<not> truthy value0 then fieldValue else value0) else value0)"

definition fieldKey :: "string option \<Rightarrow> string option \<Rightarrow> string" where
  "fieldKey name0 fieldName = to_string (effectiveName name0 fieldName)"

definition deprecations :: "string option \<Rightarrow> jsval \<Rightarrow> log_entry list" where
  \<open>deprecations fieldName fieldValue =
     (if truthy_str fieldName
      then [Warn ''Calling "createNodeField" with "fieldName" is deprecated. Use "name" instead'']
      else []) @
     (if truthy fieldValue
      then [Warn ''Calling "createNodeField" with "fieldValue" is deprecated. Use "value" instead'']
      else [])\<close>

text \<open>
  The whole function: \<open>node1\<close> is the node after line 519. The result is the returned
  action or the error, the node object after the call, and the warnings.
\<close>

definition createNodeField ::
  "Node \<Rightarrow> string option \<Rightarrow> jsval \<Rightarrow> string option \<Rightarrow> jsval \<Rightarrow> Plugin \<Rightarrow> string option
     \<Rightarrow> (error + action) \<times> Node \<times> log_entry list" where
  "createNodeField node name0 value0 fieldName fieldValue plugin traceId =
     (let key = fieldKey name0 fieldName;
          value1 = effectiveValue value0 fieldValue;
          warnings = deprecations fieldName fieldValue
      in case internal node of
           None \<Rightarrow> (Inl TypeError, node, warnings)
         | Some internal0 \<Rightarrow>
             (let fieldOwners1 = (case fieldOwners internal0 of None \<Rightarrow> Map.empty | Some m \<Rightarrow> m);
                  internal1 = internal0\<lparr>fieldOwners := Some fieldOwners1\<rparr>;
                  fields1 = (case fields' node of None \<Rightarrow> Map.empty | Some m \<Rightarrow> m);
                  node1 = node\<lparr>internal := Some internal1, fields' := Some fields1\<rparr>;
                  fieldOwner = getProperty fieldOwners1 key
              in if truthy_prop fieldOwner \<and> fieldOwner \<noteq> Own (name plugin) then
                   (Inl (FieldOwnedByAnotherPlugin (id node1) (name plugin) key value1),
                    node1, warnings)
                 else
                   (let node2 =
                          node1\<lparr>fields' := Some (setProperty fields1 key value1),
                                internal :=
                                  Some (internal1\<lparr>fieldOwners :=
                                          Some (setProperty fieldOwners1 key (name plugin))\<rparr>)\<rparr>
                    in (Inr (ADD_FIELD_TO_NODE plugin traceId node2), node2, warnings))))"

text \<open>
  \<^verbatim>\<open>createParentChildLink\<close>, lines 556 to 569:
  \<^verbatim>\<open>parent.children.push(child.id); parent.children = _.uniq(parent.children)\<close>.
  The action's payload is the parent object itself, so the second component, the parent
  after the call, is the payload.
\<close>

definition createParentChildLink :: "Node \<Rightarrow> Node \<Rightarrow> Plugin option \<Rightarrow> action \<times> Node" where
  "createParentChildLink parent child plugin =
     (let parent1 = parent\<lparr>children := children parent @ [id child]\<rparr>;
          parent2 = parent1\<lparr>children := uniq (children parent1)\<rparr>
      in (ADD_CHILD_NODE_TO_PARENT_NODE plugin parent2, parent2))"

subsection \<open>The other action creators\<close>










text \<open>
  \<^verbatim>\<open>createRedirect\<close>, lines 754 to 776. The defaults of \<^verbatim>\<open>isPermanent\<close> and
  \<^verbatim>\<open>redirectInBrowser\<close> apply to an absent value, \<open>JUndefined\<close>.
\<close>

definition createRedirect :: "State \<Rightarrow> RedirectInput \<Rightarrow> action" where
  "createRedirect st redirect =
     (let pathPrefix0 = Some [];
          pathPrefix1 = (if prefixPaths st then pathPrefix st else pathPrefix0)
      in CREATE_REDIRECT
           \<lparr>fromPath = to_string pathPrefix1 @ to_string (redirect_fromPath redirect),
            isPermanent =
              (if redirect_isPermanent redirect = JUndefined then JBool False
               else redirect_isPermanent redirect),
            redirectInBrowser =
              (if redirect_redirectInBrowser redirect = JUndefined then JBool False
               else redirect_redirectInBrowser redirect),
            toPath = to_string pathPrefix1 @ to_string (redirect_toPath redirect),
            rest = redirect_rest redirect\<rparr>)"

subsection \<open>The conditions the properties are stated with\<close>

text \<open>
  \<open>stampNode\<close> is the caller's node after line 351. \<open>passesValidation\<close> says that a
  call gets past line 380: the owner is not set by the caller, the schema accepts the
  node and the node has no \<^verbatim>\<open>fields\<close>. \<open>passesOwnership\<close> says that the block of lines
  388 to 425 does not throw. \<open>typeKey\<close> is the key of \<^verbatim>\<open>typeOwners\<close> that a node
  uses. \<open>touchOrCreate\<close> is the action of lines 427 to 442, written with the Change
  Detector's classification. \<open>createNodeCalls\<close> is a sequence of calls of
  \<^verbatim>\<open>createNode\<close>, each made when the store holds the nodes given with it.
\<close>

definition stampNode :: "Env \<Rightarrow> Node \<Rightarrow> Plugin option \<Rightarrow> Node" where
  "stampNode env node plugin = addOwner env (ensureInternal node) plugin"

definition passesValidation :: "Env \<Rightarrow> Node \<Rightarrow> Plugin option \<Rightarrow> bool" where
  "passesValidation env node plugin =
     (\<not> truthy_str (owner (internalOf node))
      \<and> validate_node env (stampNode env node plugin) = None
      \<and> fields' node = None)"

definition passesOwnership :: "State \<Rightarrow> Node \<Rightarrow> Plugin option \<Rightarrow> bool" where
  "passesOwnership st node plugin =
     (case plugin of
        None \<Rightarrow> True
      | Some p \<Rightarrow>
          \<not> isl (claimType st node p) \<and> checkNodeOwner (getNode st (id node)) node p = None)"

text \<open>The two errors of the ownership checks.\<close>

fun isOwnershipError :: "error \<Rightarrow> bool" where
  "isOwnershipError (TypeOwnedByAnotherPlugin pluginName key typeOwner node plugin) = True"
| "isOwnershipError (NodeOwnedByAnotherPlugin nodeId nodeOwner pluginName) = True"
| "isOwnershipError e = False"

definition typeKey :: "Node \<Rightarrow> string" where
  "typeKey node = to_string (type (internalOf node))"

fun createNodeCalls ::
  "Env \<Rightarrow> State \<Rightarrow> ((string \<rightharpoonup> Node) \<times> NodeArg \<times> Plugin option \<times> string option) list \<Rightarrow> State" where
  "createNodeCalls env st [] = st"
| "createNodeCalls env st ((stored, arg, plugin, traceId) # calls) =
     createNodeCalls env
       (state_after (createNode env (st\<lparr>nodes := stored\<rparr>) arg plugin traceId)) calls"

definition touchOrCreate :: "State \<Rightarrow> Node \<Rightarrow> Plugin option \<Rightarrow> string option \<Rightarrow> action" where
  "touchOrCreate st node plugin traceId =
     (if getNode st (id node) \<noteq> None \<and> classify st (id node) (contentDigest (internalOf node)) = Unchanged
      then TOUCH_NODE plugin traceId (id node)
      else CREATE_NODE plugin traceId node)"

text \<open>
  \<open>nodeField node key\<close> is the own property \<^verbatim>\<open>key\<close> of \<^verbatim>\<open>node.fields\<close> and
  \<open>nodeFieldOwner node key\<close> the own property \<^verbatim>\<open>key\<close> of
  \<^verbatim>\<open>node.internal.fieldOwners\<close>, both \<open>None\<close> when there is none or the object that
  holds them is absent. \<open>readFieldOwner node key\<close> is what line 522 reads,
  \<^verbatim>\<open>node.internal.fieldOwners[key]\<close> with the inherited properties.
  \<open>withContainers\<close> is a node after lines 513 to 519 of \<^verbatim>\<open>createNodeField\<close>.
\<close>

definition nodeField :: "Node \<Rightarrow> string \<Rightarrow> jsval option" where
  "nodeField node key = (case fields' node of None \<Rightarrow> None | Some m \<Rightarrow> m key)"

definition nodeFieldOwner :: "Node \<Rightarrow> string \<Rightarrow> string option" where
  "nodeFieldOwner node key =
     (case internal node of
        None \<Rightarrow> None
      | Some i \<Rightarrow> (case fieldOwners i of None \<Rightarrow> None | Some m \<Rightarrow> m key))"

definition readFieldOwner :: "Node \<Rightarrow> string \<Rightarrow> string property" where
  "readFieldOwner node key =
     getProperty (case fieldOwners (internalOf node) of None \<Rightarrow> Map.empty | Some m \<Rightarrow> m) key"

definition withContainers :: "Node \<Rightarrow> Node" where
  "withContainers node =
     node\<lparr>internal := Some ((internalOf node)\<lparr>fieldOwners :=
              Some (case fieldOwners (internalOf node) of None \<Rightarrow> Map.empty | Some m \<Rightarrow> m)\<rparr>),
          fields' := Some (case fields' node of None \<Rightarrow> Map.empty | Some m \<Rightarrow> m)\<rparr>"

subsection \<open>Every action creator as one function\<close>


text \<open>
  A call of one of the twenty functions of \<^verbatim>\<open>actions\<close> with its arguments, and what the
  call leaves behind, in the form of \<open>Outcome\<close>: \<open>node_after\<close> is the node object among
  the arguments, after the call (\<open>NonObject\<close> when the call has none).
\<close>

datatype call =
    DeletePage PageInput
  | CreatePage PageInput "Plugin option" "string option"
  | DeleteLayout Layout "Plugin option"
  | CreateLayout LayoutInput "Plugin option" "string option"
  | DeleteNode string NodeArg Plugin
  | DeleteNodes "string list" Plugin
  | CreateNode NodeArg "Plugin option" "string option"
  | TouchNode string "Plugin option"
  | CreateNodeField Node "string option" jsval "string option" jsval Plugin "string option"
  | CreateParentChildLink Node Node "Plugin option"
  | CreatePageDependency string string string "string option"
  | DeleteComponentsDependencies "string list"
  | ReplaceComponentQuery string string
  | SetWebpackConfig jsval
  | ReplaceWebpackConfig jsval
  | CreateJob Job "Plugin option"
  | SetJob Job "Plugin option"
  | EndJob Job "Plugin option"
  | SetPluginStatus "(string \<times> jsval) list" Plugin
  | CreateRedirect RedirectInput







subsection \<open>An environment and a state for the examples\<close>

text \<open>
  The theorems hold for every environment. Their examples are computed in this one:
  words are the maximal runs of ASCII letters and digits, which is what lodash finds in a
  string of lower-case words and separators; pages and layouts are valid when they name a
  component; \<open>createUuid\<close> joins the requested id and the plugin's name.
\<close>

definition isAlnum :: "char \<Rightarrow> bool" where
  "isAlnum c = (c \<in> set ''abcdefghijklmnopqrstuvwxyzABCDEFGHIJKLMNOPQRSTUVWXYZ0123456789'')"

definition toLower :: "char \<Rightarrow> char" where
  "toLower c =
     (case map_of (zip ''ABCDEFGHIJKLMNOPQRSTUVWXYZ'' ''abcdefghijklmnopqrstuvwxyz'') c of
        None \<Rightarrow> c | Some d \<Rightarrow> d)"

definition toUpper :: "char \<Rightarrow> char" where
  "toUpper c =
     (case map_of (zip ''abcdefghijklmnopqrstuvwxyz'' ''ABCDEFGHIJKLMNOPQRSTUVWXYZ'') c of
        None \<Rightarrow> c | Some d \<Rightarrow> d)"

fun asciiWords :: "string \<Rightarrow> string \<Rightarrow> string list" where
  "asciiWords [] w = (if w = [] then [] else [w])"
| "asciiWords (c # cs) w =
     (if isAlnum c then asciiWords cs (w @ [c])
      else (if w = [] then [] else [w]) @ asciiWords cs [])"

fun joinWith :: "string \<Rightarrow> string list \<Rightarrow> string" where
  "joinWith sep [] = []"
| "joinWith sep [w] = w"
| "joinWith sep (w # ws) = w @ sep @ joinWith sep ws"

definition sample_upperFirst :: "string \<Rightarrow> string" where
  "sample_upperFirst s = (case s of [] \<Rightarrow> [] | c # cs \<Rightarrow> toUpper c # cs)"

definition sample_kebabCase :: "string \<Rightarrow> string" where
  "sample_kebabCase s = joinWith ''-'' (map (map toLower) (asciiWords s []))"

definition sample_camelCase :: "string \<Rightarrow> string" where
  "sample_camelCase s =
     (case map (map toLower) (asciiWords s []) of
        [] \<Rightarrow> []
      | w # ws \<Rightarrow> w @ concat (map sample_upperFirst ws))"

definition sample_parse_name :: "string \<Rightarrow> string" where
  "sample_parse_name p =
     (let base = rev (takeWhile (\<lambda>c. c \<noteq> CHR ''/'') (rev p));
          ext = takeWhile (\<lambda>c. c \<noteq> CHR ''.'') (rev base)
      in if CHR ''.'' \<in> set base then rev (drop (length ext + 1) (rev base)) else base)"

text \<open>
  Modelled from the spec: the node schema of joi-schemas/joi.js, which is not among the
  sources; section 4.2 says that \<^verbatim>\<open>internal.type\<close> and
  \<^verbatim>\<open>internal.contentDigest\<close> are required on nodes.
\<close>

definition sample_validate_node :: "Node \<Rightarrow> string option" where
  "sample_validate_node n =
     (if type (internalOf n) = None then Some ''internal.type is required''
      else if contentDigest (internalOf n) = None then Some ''internal.contentDigest is required''
      else None)"

definition sample_env :: Env where
  "sample_env =
     \<lparr>createUuid = (\<lambda>nodeId pluginName. nodeId @ '' >>> '' @ pluginName),
      validate_node = sample_validate_node,
      validate_page = (\<lambda>p. if component p = [] then Some ''component is not allowed to be empty'' else None),
      validate_layout = (\<lambda>l. if lcomponent l = [] then Some ''component is not allowed to be empty'' else None),
      kebabCase = sample_kebabCase,
      camelCase = sample_camelCase,
      upperFirst = sample_upperFirst,
      glob_sync = (\<lambda>pattern. []),
      joinPath = joinWith ''/'',
      parse_name = sample_parse_name,
      generateComponentChunkName = (\<lambda>c. ''component---'' @ sample_kebabCase c),
      now = 1500000000000\<rparr>"

definition sample_state :: State where
  "sample_state =
     \<lparr>directory = ''/site'', prefixPaths = True, pathPrefix = Some ''/blog'',
      nodes = Map.empty, typeOwners = Map.empty, tracked = []\<rparr>"

definition plugin_a :: Plugin where
  "plugin_a = \<lparr>name = ''gatsby-source-a''\<rparr>"

definition plugin_b :: Plugin where
  "plugin_b = \<lparr>name = ''gatsby-source-b''\<rparr>"

definition post_node :: Node where
  "post_node =
     \<lparr>id = ''post-1'', children = [],
      internal = Some \<lparr>type = Some ''Post'', contentDigest = Some ''digest-1'', owner = None,
                       fieldOwners = None\<rparr>,
      fields' = None\<rparr>"

definition edited_post :: Node where
  "edited_post =
     \<lparr>id = ''post-1'', children = [],
      internal = Some \<lparr>type = Some ''Post'', contentDigest = Some ''digest-2'', owner = None,
                       fieldOwners = None\<rparr>,
      fields' = None\<rparr>"

definition stored_post :: Node where
  "stored_post =
     \<lparr>id = ''post-1 >>> gatsby-source-a'', children = [],
      internal = Some \<lparr>type = Some ''Post'', contentDigest = Some ''digest-1'',
                       owner = Some ''gatsby-source-a'', fieldOwners = None\<rparr>,
      fields' = None\<rparr>"

definition state_with_post :: State where
  "state_with_post =
     sample_state\<lparr>nodes := [''post-1 >>> gatsby-source-a'' \<mapsto> stored_post],
                  typeOwners := [''Post'' \<mapsto> ''gatsby-source-a'']\<rparr>"

definition foo_page :: PageInput where
  "foo_page = \<lparr>page_path = ''foo'', page_component = ''/site/src/templates/foo.js'',
               page_layout = None, page_context = None, page_matchPath = None\<rparr>"

definition root_page :: PageInput where
  "root_page = \<lparr>page_path = ''/'', page_component = ''/site/src/pages/index.js'',
               page_layout = None, page_context = None, page_matchPath = None\<rparr>"

definition old_to_new :: RedirectInput where
  "old_to_new =
     \<lparr>redirect_fromPath = Some ''/old'', redirect_isPermanent = JUndefined,
      redirect_redirectInBrowser = JUndefined, redirect_toPath = Some ''/new'',
      redirect_rest = []\<rparr>"

definition unowned_post :: Node where
  "unowned_post =
     \<lparr>id = ''post-1 >>> gatsby-source-a'', children = [],
      internal = Some \<lparr>type = Some ''Post'', contentDigest = Some ''digest-3'', owner = None,
                       fieldOwners = None\<rparr>,
      fields' = None\<rparr>"

definition other_post :: Node where
  "other_post =
     \<lparr>id = ''post-77'', children = [],
      internal = Some \<lparr>type = Some ''Post'', contentDigest = Some ''digest-77'', owner = None,
                       fieldOwners = None\<rparr>,
      fields' = None\<rparr>"

definition later_state :: State where
  "later_state =
     createNodeCalls sample_env
       (state_after (createNode sample_env sample_state (Obj post_node) (Some plugin_a) None))
       [(Map.empty, Obj other_post, Some plugin_b, None),
        ([''post-1 >>> gatsby-source-a'' \<mapsto> stored_post], Obj edited_post, Some plugin_a, None)]"

definition page_node :: Node where
  "page_node =
     \<lparr>id = ''page-1'', children = [],
      internal = Some \<lparr>type = Some ''SitePage'', contentDigest = Some ''digest-9'', owner = None,
                       fieldOwners = None\<rparr>,
      fields' = None\<rparr>"

definition state_with_unowned :: State where
  "state_with_unowned =
     sample_state\<lparr>nodes :=
       [''page-1 >>> gatsby-source-b'' \<mapsto>
          \<lparr>id = ''page-1 >>> gatsby-source-b'', children = [],
           internal = Some \<lparr>type = Some ''SitePage'', contentDigest = Some ''digest-8'',
                            owner = None, fieldOwners = None\<rparr>,
           fields' = None\<rparr>]\<rparr>"

definition slug_node :: Node where
  "slug_node =
     \<lparr>id = ''post-1 >>> gatsby-source-a'', children = [],
      internal = Some \<lparr>type = Some ''Post'', contentDigest = Some ''digest-1'',
                       owner = Some ''gatsby-source-a'', fieldOwners = None\<rparr>,
      fields' = None\<rparr>"

definition slug_node1 :: Node where
  "slug_node1 =
     \<lparr>id = ''post-1 >>> gatsby-source-a'', children = [],
      internal = Some \<lparr>type = Some ''Post'', contentDigest = Some ''digest-1'',
                       owner = Some ''gatsby-source-a'',
                       fieldOwners = Some [''slug'' \<mapsto> ''gatsby-source-b'']\<rparr>,
      fields' = Some [''slug'' \<mapsto> JStr ''/first/'']\<rparr>"

definition slug_node2 :: Node where
  "slug_node2 =
     \<lparr>id = ''post-1 >>> gatsby-source-a'', children = [],
      internal = Some \<lparr>type = Some ''Post'', contentDigest = Some ''digest-1'',
                       owner = Some ''gatsby-source-a'',
                       fieldOwners = Some [''slug'' \<mapsto> ''gatsby-source-b'']\<rparr>,
      fields' = Some [''slug'' \<mapsto> JStr ''/second/'']\<rparr>"




definition constructor_node :: Node where
  "constructor_node =
     \<lparr>id = ''c-1'', children = [],
      internal = Some \<lparr>type = Some ''constructor'', contentDigest = Some ''digest-c'',
                       owner = None, fieldOwners = None\<rparr>,
      fields' = None\<rparr>"

section \<open>Properties\<close>

subsection \<open>uniq keeps the first occurrences\<close>

lemma set_baseUniq: "set (baseUniq xs r) = set xs \<union> set r"
  by (induction xs arbitrary: r) auto

lemma distinct_baseUniq: "distinct r \<Longrightarrow> distinct (baseUniq xs r)"
  by (induction xs arbitrary: r) auto

lemma baseUniq_append: "baseUniq (xs @ ys) r = baseUniq ys (baseUniq xs r)"
  by (induction xs arbitrary: r) auto

lemma set_uniq: "set (uniq xs) = set xs"
  by (simp add: uniq_def set_baseUniq)

lemma distinct_uniq: "distinct (uniq xs)"
  by (simp add: uniq_def distinct_baseUniq)

lemma uniq_snoc: "uniq (xs @ [x]) = (if x \<in> set xs then uniq xs else uniq xs @ [x])"
  by (simp add: uniq_def baseUniq_append set_baseUniq)

lemma uniq_first_occurrences: "uniq xs = rev (remdups (rev xs))"
proof (induction xs rule: rev_induct)
  case Nil
  show ?case by (simp add: uniq_def)
next
  case (snoc x xs)
  then show ?case by (simp add: uniq_snoc)
qed

lemma uniq_distinct: "distinct xs \<Longrightarrow> uniq xs = xs"
  by (simp add: uniq_first_occurrences distinct_remdups_id)

lemma uniq_snoc_member: "distinct ys \<Longrightarrow> x \<in> set ys \<Longrightarrow> uniq (ys @ [x]) = ys"
  by (simp add: uniq_snoc uniq_distinct)

lemma count_list_distinct: "distinct xs \<Longrightarrow> x \<in> set xs \<Longrightarrow> count_list xs x = 1"
  by (induction xs) (auto simp: count_list_0_iff)

subsection \<open>Linking a child to a parent\<close>

text \<open>
  C6: \<^verbatim>\<open>createParentChildLink\<close> is idempotent. After linking a child to a parent, the
  child's id occurs exactly once in the parent's children; linking the same child again
  (by any plugin) leaves the parent as it is, so the id still occurs exactly once. The
  children after a link are the first occurrences of the children before it, in their
  order (\<open>uniq\<close>, which is \<open>remdups\<close> read from the left), followed by the child's id when
  it was not among them; nothing else of the parent changes, and the parent after the
  call is the payload of the action.
\<close>

theorem createParentChildLink_idempotent:
  "(let (action1, parent1) = createParentChildLink parent child plugin;
        (action2, parent2) = createParentChildLink parent1 child plugin'
    in count_list (children parent1) (id child) = 1
       \<and> count_list (children parent2) (id child) = 1
       \<and> parent2 = parent1
       \<and> action1 = ADD_CHILD_NODE_TO_PARENT_NODE plugin parent1
       \<and> action2 = ADD_CHILD_NODE_TO_PARENT_NODE plugin' parent1
       \<and> distinct (children parent1)
       \<and> children parent1 =
           uniq (children parent) @ (if id child \<in> set (children parent) then [] else [id child])
       \<and> uniq (children parent) = rev (remdups (rev (children parent)))
       \<and> parent1 = parent\<lparr>children := children parent1\<rparr>)"
proof -
  let ?c = "id child"
  let ?ys = "uniq (children parent @ [?c])"
  have d: "distinct ?ys" by (rule distinct_uniq)
  have m: "?c \<in> set ?ys" by (simp add: set_uniq)
  have c1: "count_list ?ys ?c = 1" using d m by (rule count_list_distinct)
  have again: "uniq (?ys @ [?c]) = ?ys"
    using d m by (rule uniq_snoc_member)
  have shape: "?ys = uniq (children parent) @ (if ?c \<in> set (children parent) then [] else [?c])"
    by (simp add: uniq_snoc)
  have l1: "createParentChildLink parent child plugin =
              (ADD_CHILD_NODE_TO_PARENT_NODE plugin (parent\<lparr>children := ?ys\<rparr>),
               parent\<lparr>children := ?ys\<rparr>)"
    by (simp add: createParentChildLink_def Let_def)
  have l2: "createParentChildLink (parent\<lparr>children := ?ys\<rparr>) child plugin' =
              (ADD_CHILD_NODE_TO_PARENT_NODE plugin' (parent\<lparr>children := ?ys\<rparr>),
               parent\<lparr>children := ?ys\<rparr>)"
    by (simp add: createParentChildLink_def Let_def again)
  show ?thesis
    unfolding l1 l2 Let_def prod.case
    using c1 d shape uniq_first_occurrences [of "children parent"] by simp
qed


subsection \<open>Pages and redirects\<close>

lemma internalPage_path:
  "path (internalPage env st page) =
     (case page_path page of
        [] \<Rightarrow> ''/''
      | c # cs \<Rightarrow> if c = CHR ''/'' then page_path page else ''/'' @ page_path page)"
  by (simp add: internalPage_def Let_def split: list.splits)

lemma internalPage_jsonName:
  "jsonName (internalPage env st page) =
     (if kebabCase env (page_path page) = [] then ''index.json''
      else kebabCase env (page_path page) @ ''.json'')"
  by (simp add: internalPage_def Let_def)

lemma internalPage_internalComponentName:
  "internalComponentName (internalPage env st page) =
     (if kebabCase env (page_path page) = [] then ''ComponentIndex''
      else ''Component'' @ pascalCase env (page_path page))"
  by (simp add: internalPage_def Let_def)

text \<open>
  C7: when the page schema accepts the internal page, \<^verbatim>\<open>createPage\<close> returns a
  \<^verbatim>\<open>CREATE_PAGE\<close> action whose payload has the path of the argument with a slash put in
  front when it does not start with one, so the path \<^verbatim>\<open>foo\<close> becomes \<^verbatim>\<open>/foo\<close>; and
  when lodash's \<^verbatim>\<open>kebabCase\<close> of the path is empty, as it is for the root path
  \<^verbatim>\<open>/\<close>, the payload has the jsonName \<^verbatim>\<open>index.json\<close> and the
  internalComponentName \<^verbatim>\<open>ComponentIndex\<close>.
\<close>

theorem createPage_normalizes:
  assumes "validate_page env (internalPage env st page) = None"
  shows "createPage env st page plugin traceId =
           (Some (CREATE_PAGE plugin traceId (internalPage env st page)), [])
         \<and> path (internalPage env st page) =
             (case page_path page of
                [] \<Rightarrow> ''/''
              | c # cs \<Rightarrow> if c = CHR ''/'' then page_path page else ''/'' @ page_path page)
         \<and> (page_path page = ''foo'' \<longrightarrow> path (internalPage env st page) = ''/foo'')
         \<and> (kebabCase env (page_path page) = [] \<longrightarrow>
              jsonName (internalPage env st page) = ''index.json''
              \<and> internalComponentName (internalPage env st page) = ''ComponentIndex'')"
  using assms
  by (simp add: createPage_def internalPage_path internalPage_jsonName
        internalPage_internalComponentName)

theorem createPage_normalizes_witness:
  "(\<exists>pg. createPage sample_env sample_state foo_page None None = (Some (CREATE_PAGE None None pg), [])
         \<and> path pg = ''/foo'')
   \<and> (\<exists>pg. createPage sample_env sample_state root_page None None = (Some (CREATE_PAGE None None pg), [])
         \<and> path pg = ''/'' \<and> jsonName pg = ''index.json''
         \<and> internalComponentName pg = ''ComponentIndex'')"
proof -
  have v1: "validate_page sample_env (internalPage sample_env sample_state foo_page) = None"
    by (simp add: sample_env_def internalPage_def foo_page_def Let_def)
  have v2: "validate_page sample_env (internalPage sample_env sample_state root_page) = None"
    by (simp add: sample_env_def internalPage_def root_page_def Let_def)
  have k: "kebabCase sample_env (page_path root_page) = []"
    by (simp add: sample_env_def root_page_def sample_kebabCase_def isAlnum_def)
  have p1: "page_path foo_page = ''foo''" by (simp add: foo_page_def)
  have p2: "page_path root_page = ''/''" by (simp add: root_page_def)
  show ?thesis
    using createPage_normalizes [OF v1, of None None] createPage_normalizes [OF v2, of None None]
      k p1 p2
    by simp
qed

text \<open>
  C8 as it is stated fails: a configured path prefix alone does not change the paths of a
  redirect. With the prefix \<^verbatim>\<open>/blog\<close> configured and \<^verbatim>\<open>program.prefixPaths\<close> not
  set, the redirect from \<^verbatim>\<open>/old\<close> to \<^verbatim>\<open>/new\<close> is emitted with these two paths.
\<close>

theorem createRedirect_prefix_counterexample:
  "createRedirect
     \<lparr>directory = ''/site'', prefixPaths = False, pathPrefix = Some ''/blog'',
      nodes = Map.empty, typeOwners = Map.empty, tracked = []\<rparr>
     \<lparr>redirect_fromPath = Some ''/old'', redirect_isPermanent = JUndefined,
      redirect_redirectInBrowser = JUndefined, redirect_toPath = Some ''/new'',
      redirect_rest = []\<rparr>
   = CREATE_REDIRECT
       \<lparr>fromPath = ''/old'', isPermanent = JBool False, redirectInBrowser = JBool False,
        toPath = ''/new'', rest = []\<rparr>"
  by (simp add: createRedirect_def)

text \<open>
  C8, amended: when \<^verbatim>\<open>program.prefixPaths\<close> is set and a path prefix is configured, the
  payload's \<^verbatim>\<open>fromPath\<close> and \<^verbatim>\<open>toPath\<close> are the prefix followed by the paths of the
  argument; when \<^verbatim>\<open>program.prefixPaths\<close> is not set, they are the paths of the argument.
\<close>

theorem createRedirect_prefix:
  "(prefixPaths st \<and> pathPrefix st = Some prefix
      \<and> redirect_fromPath redirect = Some from \<and> redirect_toPath redirect = Some to \<longrightarrow>
      (\<exists>payload. createRedirect st redirect = CREATE_REDIRECT payload
         \<and> fromPath payload = prefix @ from \<and> toPath payload = prefix @ to))
   \<and> (\<not> prefixPaths st
      \<and> redirect_fromPath redirect = Some from \<and> redirect_toPath redirect = Some to \<longrightarrow>
      (\<exists>payload. createRedirect st redirect = CREATE_REDIRECT payload
         \<and> fromPath payload = from \<and> toPath payload = to))"
  by (simp add: createRedirect_def)

theorem createRedirect_prefix_witness:
  "(\<exists>payload. createRedirect sample_state old_to_new = CREATE_REDIRECT payload
       \<and> fromPath payload = ''/blog/old'' \<and> toPath payload = ''/blog/new'')
   \<and> (\<exists>payload. createRedirect (sample_state\<lparr>prefixPaths := False\<rparr>) old_to_new = CREATE_REDIRECT payload
       \<and> fromPath payload = ''/old'' \<and> toPath payload = ''/new'')"
proof -
  have h1: "prefixPaths sample_state \<and> pathPrefix sample_state = Some ''/blog''
            \<and> redirect_fromPath old_to_new = Some ''/old''
            \<and> redirect_toPath old_to_new = Some ''/new''"
    by (simp add: sample_state_def old_to_new_def)
  have h2: "\<not> prefixPaths (sample_state\<lparr>prefixPaths := False\<rparr>)
            \<and> redirect_fromPath old_to_new = Some ''/old''
            \<and> redirect_toPath old_to_new = Some ''/new''"
    by (simp add: old_to_new_def)
  show ?thesis
    using h1 h2
      createRedirect_prefix [of sample_state "''/blog''" old_to_new "''/old''" "''/new''"]
      createRedirect_prefix [of "sample_state\<lparr>prefixPaths := False\<rparr>" "''/blog''" old_to_new "''/old''" "''/new''"]
    by simp
qed

text \<open>
  C9: when the schema rejects the internal page, \<^verbatim>\<open>createPage\<close> returns \<^verbatim>\<open>null\<close>
  and throws nothing, and what it writes to the console is the notice, the validation
  error and the whole internal page; \<^verbatim>\<open>createLayout\<close> does the same with the internal
  layout.
\<close>

theorem validation_failure_reported:
  "(validate_page env (internalPage env st page) = Some err \<longrightarrow>
      createPage env st page plugin traceId =
        (None,
         [Log_text ''The upserted page didn't pass validation'',
          Log_error err,
          Log_page (internalPage env st page)]))
   \<and> (validate_layout env (internalLayout env st layoutInput) = Some err' \<longrightarrow>
      createLayout env st layoutInput plugin traceId =
        (None,
         [Log_text ''The upserted layout didn't pass validation'',
          Log_error err',
          Log_layout (internalLayout env st layoutInput)]))"
  by (simp add: createPage_def createLayout_def)


theorem validation_failure_reported_witness:
  "createPage sample_env sample_state (foo_page\<lparr>page_component := []\<rparr>) None None =
     (None,
      [Log_text ''The upserted page didn't pass validation'',
       Log_error ''component is not allowed to be empty'',
       Log_page (internalPage sample_env sample_state (foo_page\<lparr>page_component := []\<rparr>))])
   \<and> createLayout sample_env sample_state
       \<lparr>layout_id = Some ''main'', layout_component = [], layout_context = None\<rparr> None None =
     (None,
      [Log_text ''The upserted layout didn't pass validation'',
       Log_error ''component is not allowed to be empty'',
       Log_layout (internalLayout sample_env sample_state
         \<lparr>layout_id = Some ''main'', layout_component = [], layout_context = None\<rparr>)])"
proof -
  have h1: "validate_page sample_env (internalPage sample_env sample_state (foo_page\<lparr>page_component := []\<rparr>))
              = Some ''component is not allowed to be empty''"
    by (simp add: sample_env_def internalPage_def foo_page_def Let_def)
  have h2: "validate_layout sample_env (internalLayout sample_env sample_state
              \<lparr>layout_id = Some ''main'', layout_component = [], layout_context = None\<rparr>)
              = Some ''component is not allowed to be empty''"
    by (simp add: sample_env_def internalLayout_def Let_def)
  show ?thesis
    using h1 h2
      validation_failure_reported [of sample_env sample_state "foo_page\<lparr>page_component := []\<rparr>"
        "''component is not allowed to be empty''" None None
        "\<lparr>layout_id = Some ''main'', layout_component = [], layout_context = None\<rparr>"
        "''component is not allowed to be empty''"]
    by simp
qed

subsection \<open>createNode\<close>

lemma internalOf_ensureInternal [simp]: "internalOf (ensureInternal node) = internalOf node"
  by (simp add: ensureInternal_def internalOf_def)

lemma ensureInternal_fields [simp]:
  "fields' (ensureInternal node) = fields' node"
  "id (ensureInternal node) = id node"
  "children (ensureInternal node) = children node"
  by (simp_all add: ensureInternal_def)

lemma stampNode_fields [simp]:
  "fields' (stampNode env node plugin) = fields' node"
  "children (stampNode env node plugin) = children node"
  by (simp_all add: stampNode_def addOwner_def split: option.splits)


lemma stampNode_internal:
  "internalOf (stampNode env node plugin) =
     (case plugin of None \<Rightarrow> internalOf node | Some p \<Rightarrow> (internalOf node)\<lparr>owner := Some (name p)\<rparr>)"
  by (simp add: stampNode_def addOwner_def internalOf_def ensureInternal_def split: option.splits)

lemma typeKey_stampNode [simp]: "typeKey (stampNode env node plugin) = typeKey node"
  by (simp add: typeKey_def stampNode_internal split: option.splits)

lemma createNode_NonObject:
  \<open>createNode env st NonObject plugin traceId =
     \<lparr>result = Inr None, node_after = NonObject, state_after = st,
      console = [Log_text ''The node passed to the "createNode" action creator must be an object'']\<rparr>\<close>
  by (simp add: createNode_def)

lemma createNode_owner_set:
  "truthy_str (owner (internalOf node)) \<Longrightarrow>
   createNode env st (Obj node) plugin traceId =
     \<lparr>result = Inl (ProcessExit 1), node_after = Obj (ensureInternal node), state_after = st,
      console =
        [Log_node (ensureInternal node),
         Log_text ''The node internal.owner field is set automatically by Gatsby and not by plugin'']\<rparr>"
  by (simp add: createNode_def Let_def)

lemma createNode_invalid:
  "\<not> truthy_str (owner (internalOf node)) \<Longrightarrow>
   validate_node env (stampNode env node plugin) = Some err \<Longrightarrow>
   createNode env st (Obj node) plugin traceId =
     \<lparr>result = Inr (Some VALIDATION_ERROR), node_after = Obj (stampNode env node plugin),
      state_after = st,
      console =
        [Log_text ''The new node didn't pass validation'', Log_error err,
         Log_node (stampNode env node plugin)]\<rparr>"
  by (simp add: createNode_def Let_def stampNode_def)

lemma createNode_reserved_fields:
  "\<not> truthy_str (owner (internalOf node)) \<Longrightarrow>
   validate_node env (stampNode env node plugin) = None \<Longrightarrow>
   fields' node \<noteq> None \<Longrightarrow>
   createNode env st (Obj node) plugin traceId =
     \<lparr>result = Inl (ReservedFields (stampNode env node plugin) plugin),
      node_after = Obj (stampNode env node plugin), state_after = st, console = []\<rparr>"
  using stampNode_fields(1) [of env node plugin]
  by (simp add: createNode_def Let_def stampNode_def del: stampNode_fields)

lemma createNode_no_plugin:
  "passesValidation env node None \<Longrightarrow>
   createNode env st (Obj node) None traceId =
     \<lparr>result = Inr (Some (touchOrCreate st (stampNode env node None) None traceId)),
      node_after = Obj (stampNode env node None),
      state_after = st\<lparr>tracked := tracked st @ [stampNode env node None]\<rparr>, console = []\<rparr>"
  using stampNode_fields(1) [of env node None]
  by (simp add: passesValidation_def createNode_def Let_def stampNode_def touchOrCreate_def
      getNode_def hasNodeChanged_def classify_def storedDigest_def del: stampNode_fields)

lemma createNode_plugin:
  "passesValidation env node (Some p) \<Longrightarrow>
   createNode env st (Obj node) (Some p) traceId =
     (let node2 = stampNode env node (Some p);
          st1 = st\<lparr>tracked := tracked st @ [node2]\<rparr>
      in case claimType st1 node2 p of
           Inl e \<Rightarrow> \<lparr>result = Inl e, node_after = Obj node2, state_after = st1, console = []\<rparr>
         | Inr st2 \<Rightarrow>
             (case checkNodeOwner (getNode st (id node2)) node2 p of
                Some e \<Rightarrow> \<lparr>result = Inl e, node_after = Obj node2, state_after = st2, console = []\<rparr>
              | None \<Rightarrow>
                  \<lparr>result = Inr (Some (touchOrCreate st node2 (Some p) traceId)),
                   node_after = Obj node2, state_after = st2, console = []\<rparr>))"
  using stampNode_fields(1) [of env node "Some p"]
  apply (simp add: passesValidation_def createNode_def Let_def stampNode_def touchOrCreate_def
      getNode_def hasNodeChanged_def classify_def storedDigest_def del: stampNode_fields
      split: sum.splits option.splits)
  apply (auto simp: claimType_def Let_def split: option.splits if_splits)
  done


lemma claimType_tracked:
  "claimType (st\<lparr>tracked := ts\<rparr>) node p =
     map_sum (\<lambda>e. e) (\<lambda>s. s\<lparr>tracked := ts\<rparr>) (claimType st node p)"
  by (simp add: claimType_def Let_def split: option.splits)


lemma classify_Unchanged:
  "(classify st nodeId digest = Unchanged) =
     (\<exists>d. storedDigest st nodeId = Some d \<and> digest = Some d)"
  by (auto simp: classify_def split: option.splits)

lemma storedDigest_getNode: "storedDigest st nodeId = Some d \<Longrightarrow> \<exists>old. getNode st nodeId = Some old"
  by (simp add: getNode_def storedDigest_def split: option.splits)

lemma createNode_passes:
  assumes "passesValidation env node plugin"
    and "passesOwnership st (stampNode env node plugin) plugin"
  shows "result (createNode env st (Obj node) plugin traceId) =
           Inr (Some (touchOrCreate st (stampNode env node plugin) plugin traceId))"
    and "node_after (createNode env st (Obj node) plugin traceId) = Obj (stampNode env node plugin)"
proof -
  show "result (createNode env st (Obj node) plugin traceId) =
           Inr (Some (touchOrCreate st (stampNode env node plugin) plugin traceId))"
  proof (cases plugin)
    case None
    then show ?thesis using assms(1) by (simp add: createNode_no_plugin)
  next
    case (Some p)
    have v: "passesValidation env node (Some p)" using assms(1) Some by simp
    have c: "\<not> isl (claimType st (stampNode env node (Some p)) p)"
      and o: "checkNodeOwner (getNode st (id (stampNode env node (Some p)))) (stampNode env node (Some p)) p = None"
      using assms(2) Some by (simp_all add: passesOwnership_def)
    from c obtain st2 where g: "claimType st (stampNode env node (Some p)) p = Inr st2"
      by (cases "claimType st (stampNode env node (Some p)) p") simp_all
    show ?thesis
      unfolding Some createNode_plugin [OF v] Let_def
      using o by (simp add: claimType_tracked g)
  qed
  show "node_after (createNode env st (Obj node) plugin traceId) = Obj (stampNode env node plugin)"
  proof (cases plugin)
    case None
    then show ?thesis using assms(1) by (simp add: createNode_no_plugin)
  next
    case (Some p)
    have v: "passesValidation env node (Some p)" using assms(1) Some by simp
    show ?thesis
      unfolding Some createNode_plugin [OF v] Let_def
      by (simp split: sum.splits option.splits)
  qed
qed

text \<open>
  C3: for a node that passes the checks of \<^verbatim>\<open>createNode\<close> (the validation and, with a
  plugin, the two ownership checks), where the id is the one the node has after line 351:
  when a node is stored under that id and its stored digest is the incoming digest, the
  result is a \<^verbatim>\<open>TOUCH_NODE\<close> action with the id as payload; when no node is stored
  under the id, or the stored digest differs from the incoming one, the result is a
  \<^verbatim>\<open>CREATE_NODE\<close> action whose payload is the node.
\<close>

theorem createNode_touch_or_create:
  assumes "passesValidation env node plugin"
    and "passesOwnership st (stampNode env node plugin) plugin"
  shows "(let node2 = stampNode env node plugin;
              digest = contentDigest (internalOf node2);
              out = createNode env st (Obj node) plugin traceId
          in node_after out = Obj node2
             \<and> ((\<exists>d. storedDigest st (id node2) = Some d \<and> digest = Some d) \<longrightarrow>
                  getNode st (id node2) \<noteq> None
                  \<and> result out = Inr (Some (TOUCH_NODE plugin traceId (id node2))))
             \<and> (getNode st (id node2) = None \<longrightarrow>
                  result out = Inr (Some (CREATE_NODE plugin traceId node2)))
             \<and> (getNode st (id node2) \<noteq> None \<and> storedDigest st (id node2) \<noteq> digest \<longrightarrow>
                  result out = Inr (Some (CREATE_NODE plugin traceId node2)))
             \<and> (\<not> (\<exists>d. storedDigest st (id node2) = Some d \<and> digest = Some d) \<longrightarrow>
                  result out = Inr (Some (CREATE_NODE plugin traceId node2))))"
proof -
  let ?n = "stampNode env node plugin"
  have r: "result (createNode env st (Obj node) plugin traceId) =
             Inr (Some (touchOrCreate st ?n plugin traceId))"
    using assms by (rule createNode_passes(1))
  have n: "node_after (createNode env st (Obj node) plugin traceId) = Obj ?n"
    using assms by (rule createNode_passes(2))
  have stored: "\<And>d. storedDigest st (id ?n) = Some d \<Longrightarrow> getNode st (id ?n) \<noteq> None"
    using storedDigest_getNode [of st "id ?n"] by auto
  show ?thesis
    unfolding Let_def r n touchOrCreate_def classify_Unchanged
    using stored by auto
qed

lemmas fixture_defs = sample_env_def sample_state_def sample_validate_node_def plugin_a_def plugin_b_def
  post_node_def edited_post_def stored_post_def state_with_post_def

lemmas createNode_eval = stampNode_def addOwner_def ensureInternal_def internalOf_def
  passesValidation_def passesOwnership_def claimType_def checkNodeOwner_def getNode_def
  storedDigest_def getProperty_def setProperty_def objectPrototypeKeys_def Let_def

theorem createNode_touch_or_create_witness:
  "result (createNode sample_env sample_state (Obj post_node) (Some plugin_a) None) =
     Inr (Some (CREATE_NODE (Some plugin_a) None stored_post))
   \<and> result (createNode sample_env state_with_post (Obj post_node) (Some plugin_a) None) =
     Inr (Some (TOUCH_NODE (Some plugin_a) None ''post-1 >>> gatsby-source-a''))
   \<and> result (createNode sample_env state_with_post (Obj edited_post) (Some plugin_a) None) =
     Inr (Some (CREATE_NODE (Some plugin_a) None
       (stored_post\<lparr>internal := Some ((internalOf stored_post)\<lparr>contentDigest := Some ''digest-2''\<rparr>)\<rparr>)))"
proof -
  have s1: "stampNode sample_env post_node (Some plugin_a) = stored_post"
    by (simp add: fixture_defs createNode_eval)
  have s2: "stampNode sample_env edited_post (Some plugin_a) =
              stored_post\<lparr>internal := Some ((internalOf stored_post)\<lparr>contentDigest := Some ''digest-2''\<rparr>)\<rparr>"
    by (simp add: fixture_defs createNode_eval)
  have v1: "passesValidation sample_env post_node (Some plugin_a)"
    by (simp add: fixture_defs createNode_eval)
  have v2: "passesValidation sample_env edited_post (Some plugin_a)"
    by (simp add: fixture_defs createNode_eval)
  have o1: "passesOwnership sample_state (stampNode sample_env post_node (Some plugin_a)) (Some plugin_a)"
    by (simp add: fixture_defs createNode_eval)
  have o2: "passesOwnership state_with_post (stampNode sample_env post_node (Some plugin_a)) (Some plugin_a)"
    by (simp add: fixture_defs createNode_eval)
  have o3: "passesOwnership state_with_post (stampNode sample_env edited_post (Some plugin_a)) (Some plugin_a)"
    by (simp add: fixture_defs createNode_eval)
  have new: "getNode sample_state (id stored_post) = None"
    by (simp add: fixture_defs getNode_def)
  have same: "\<exists>d. storedDigest state_with_post (id stored_post) = Some d
                \<and> contentDigest (internalOf stored_post) = Some d"
    by (simp add: fixture_defs createNode_eval)
  have differs: "getNode state_with_post (id stored_post) \<noteq> None
                 \<and> storedDigest state_with_post (id stored_post) \<noteq> Some ''digest-2''"
    by (simp add: fixture_defs createNode_eval)
  have i: "id stored_post = ''post-1 >>> gatsby-source-a''"
    by (simp add: stored_post_def)
  show ?thesis
    using createNode_touch_or_create [OF v1 o1, of None]
      createNode_touch_or_create [OF v1 o2, of None]
      createNode_touch_or_create [OF v2 o3, of None]
      new same differs i
    unfolding s1 s2 Let_def
    by (simp add: internalOf_def)
qed

subsection \<open>createNode without a plugin\<close>

lemma stampNode_None [simp]: "stampNode env node None = ensureInternal node"
  by (simp add: stampNode_def addOwner_def)

lemma createNode_no_plugin_not_valid:
  "\<not> passesValidation env node None \<Longrightarrow>
   state_after (createNode env st (Obj node) None traceId) = st
   \<and> node_after (createNode env st (Obj node) None traceId) = Obj (ensureInternal node)
   \<and> (\<forall>e. result (createNode env st (Obj node) None traceId) = Inl e \<longrightarrow> \<not> isOwnershipError e)"
proof (cases "truthy_str (owner (internalOf node))")
  case True
  then show ?thesis by (simp add: createNode_owner_set)
next
  case False
  assume nv: "\<not> passesValidation env node None"
  show ?thesis
  proof (cases "validate_node env (stampNode env node None)")
    case (Some err)
    show ?thesis using createNode_invalid [OF False Some] by simp
  next
    case None
    then have "fields' node \<noteq> None" using nv False by (simp add: passesValidation_def)
    then show ?thesis using createNode_reserved_fields [OF False None] by simp
  qed
qed

text \<open>
  C10: a call of \<^verbatim>\<open>createNode\<close> without a plugin never ends in one of the two ownership
  errors and leaves \<^verbatim>\<open>typeOwners\<close> as it was, whatever \<^verbatim>\<open>typeOwners\<close> and the
  stored nodes hold. The node keeps its id; no owner is written to it, so unless the call
  exits because the caller set one, \<^verbatim>\<open>internal.owner\<close> is falsy. When the node passes
  the validation the result is the \<^verbatim>\<open>TOUCH_NODE\<close> or \<^verbatim>\<open>CREATE_NODE\<close> action that the
  digests alone decide.
\<close>

theorem createNode_without_plugin:
  "(let out = createNode env st (Obj node) None traceId
    in typeOwners (state_after out) = typeOwners st
       \<and> nodes (state_after out) = nodes st
       \<and> node_after out = Obj (ensureInternal node)
       \<and> id (ensureInternal node) = id node
       \<and> owner (internalOf (ensureInternal node)) = owner (internalOf node)
       \<and> (\<forall>e. result out = Inl e \<longrightarrow> \<not> isOwnershipError e)
       \<and> (result out \<noteq> Inl (ProcessExit 1) \<longrightarrow> \<not> truthy_str (owner (internalOf node)))
       \<and> (passesValidation env node None \<longrightarrow>
            result out =
              Inr (Some
                (if \<exists>d. storedDigest st (id node) = Some d \<and> contentDigest (internalOf node) = Some d
                 then TOUCH_NODE None traceId (id node)
                 else CREATE_NODE None traceId (ensureInternal node)))))"
proof (cases "passesValidation env node None")
  case True
  then have "\<not> truthy_str (owner (internalOf node))" by (simp add: passesValidation_def)
  moreover have "\<And>d. storedDigest st (id node) = Some d \<Longrightarrow> getNode st (id node) \<noteq> None"
    using storedDigest_getNode [of st "id node"] by auto
  ultimately show ?thesis
    using True
    by (auto simp: createNode_no_plugin [OF True] touchOrCreate_def Let_def classify_Unchanged)
next
  case False
  have x: "truthy_str (owner (internalOf node)) \<Longrightarrow>
           result (createNode env st (Obj node) None traceId) = Inl (ProcessExit 1)"
    by (simp add: createNode_owner_set)
  show ?thesis
    using False createNode_no_plugin_not_valid [OF False, of st traceId] x
    by (auto simp: Let_def)
qed

theorem createNode_without_plugin_witness:
  "typeOwners state_with_post ''Post'' = Some ''gatsby-source-a''
   \<and> getNode state_with_post (id unowned_post) = Some stored_post
   \<and> owner (internalOf stored_post) = Some ''gatsby-source-a''
   \<and> result (createNode sample_env state_with_post (Obj unowned_post) None None) =
       Inr (Some (CREATE_NODE None None unowned_post))
   \<and> typeOwners (state_after (createNode sample_env state_with_post (Obj unowned_post) None None)) =
       typeOwners state_with_post
   \<and> node_after (createNode sample_env state_with_post (Obj unowned_post) None None) = Obj unowned_post"
proof -
  have v: "passesValidation sample_env unowned_post None"
    by (simp add: fixture_defs unowned_post_def createNode_eval)
  have e: "ensureInternal unowned_post = unowned_post"
    by (simp add: unowned_post_def createNode_eval)
  have t: "\<not> (\<exists>d. storedDigest state_with_post (id unowned_post) = Some d
                  \<and> contentDigest (internalOf unowned_post) = Some d)"
    by (simp add: fixture_defs unowned_post_def createNode_eval)
  have f: "typeOwners state_with_post ''Post'' = Some ''gatsby-source-a''
           \<and> getNode state_with_post (id unowned_post) = Some stored_post
           \<and> owner (internalOf stored_post) = Some ''gatsby-source-a''"
    by (simp add: fixture_defs unowned_post_def createNode_eval)
  show ?thesis
    using createNode_without_plugin [of sample_env state_with_post unowned_post None] v t f
    unfolding Let_def e
    by auto
qed


subsection \<open>Type ownership\<close>

lemma setProperty_falsy:
  "\<not> truthy_prop (getProperty obj key) \<Longrightarrow> setProperty obj key v = obj(key \<mapsto> v)"
  by (auto simp: getProperty_def setProperty_def objectPrototypeKeys_def split: option.splits if_splits)

lemma getProperty_own: "obj key = Some v \<Longrightarrow> getProperty obj key = Own v"
  by (simp add: getProperty_def)

lemma getProperty_ordinary:
  "key \<notin> set objectPrototypeKeys \<Longrightarrow>
   getProperty obj key = (case obj key of None \<Rightarrow> Undefined | Some v \<Rightarrow> Own v)"
  by (simp add: getProperty_def split: option.splits)

lemma getProperty_inherited:
  "obj key = None \<Longrightarrow> key \<in> set objectPrototypeKeys \<Longrightarrow> getProperty obj key = Inherited"
  by (simp add: getProperty_def)

lemma claimType_unclaimed:
  "\<not> truthy_prop (getProperty (typeOwners st) (typeKey node)) \<Longrightarrow>
   claimType st node p = Inr (st\<lparr>typeOwners := (typeOwners st)(typeKey node \<mapsto> name p)\<rparr>)"
  by (simp add: claimType_def typeKey_def Let_def setProperty_falsy)

lemma claimType_same:
  "typeOwners st (typeKey node) = Some (name p) \<Longrightarrow> name p \<noteq> [] \<Longrightarrow> claimType st node p = Inr st"
  by (simp add: claimType_def typeKey_def Let_def getProperty_own)

lemma claimType_other:
  "typeOwners st (typeKey node) = Some typeOwner \<Longrightarrow> typeOwner \<noteq> [] \<Longrightarrow> typeOwner \<noteq> name p \<Longrightarrow>
   claimType st node p =
     Inl (TypeOwnedByAnotherPlugin (name p) (typeKey node) (Own typeOwner) node p)"
  by (simp add: claimType_def typeKey_def Let_def getProperty_own)

lemma claimType_inherited:
  "typeOwners st (typeKey node) = None \<Longrightarrow> typeKey node \<in> set objectPrototypeKeys \<Longrightarrow>
   claimType st node p =
     Inl (TypeOwnedByAnotherPlugin (name p) (typeKey node) Inherited node p)"
  by (simp add: claimType_def typeKey_def Let_def getProperty_inherited)

lemma claimType_result:
  "claimType st node p = Inr st2 \<Longrightarrow>
   st2 = st \<or> st2 = st\<lparr>typeOwners := (typeOwners st)(typeKey node \<mapsto> name p)\<rparr>"
  by (auto simp: claimType_def typeKey_def Let_def setProperty_falsy split: if_splits)

lemma claimType_keeps:
  assumes "typeOwners st t = Some typeOwner" and "typeOwner \<noteq> []"
    and "claimType st node p = Inr st2"
  shows "typeOwners st2 t = Some typeOwner"
proof (cases "t = typeKey node")
  case True
  then have "truthy_prop (getProperty (typeOwners st) (typeKey node))"
    using assms(1,2) by (simp add: getProperty_own)
  then have "st2 = st" using assms(3) by (auto simp: claimType_def typeKey_def Let_def split: if_splits)
  then show ?thesis using assms(1) by simp
next
  case False
  then show ?thesis using claimType_result [OF assms(3)] assms(1) by auto
qed

lemma createNode_state_cases:
  "state_after (createNode env st arg plugin traceId) = st
   \<or> (\<exists>node. state_after (createNode env st arg plugin traceId) = st\<lparr>tracked := tracked st @ [node]\<rparr>)
   \<or> (\<exists>node p st2. plugin = Some p
        \<and> claimType (st\<lparr>tracked := tracked st @ [node]\<rparr>) node p = Inr st2
        \<and> state_after (createNode env st arg plugin traceId) = st2)"
proof (cases arg)
  case NonObject
  then show ?thesis by (simp add: createNode_NonObject)
next
  case (Obj node)
  show ?thesis
  proof (cases "passesValidation env node plugin")
    case False
    have "state_after (createNode env st (Obj node) plugin traceId) = st"
    proof (cases "truthy_str (owner (internalOf node))")
      case True
      then show ?thesis by (simp add: createNode_owner_set)
    next
      case nt: False
      show ?thesis
      proof (cases "validate_node env (stampNode env node plugin)")
        case (Some err)
        show ?thesis using createNode_invalid [OF nt Some] by simp
      next
        case None
        then have "fields' node \<noteq> None" using False nt by (simp add: passesValidation_def)
        then show ?thesis using createNode_reserved_fields [OF nt None] by simp
      qed
    qed
    then show ?thesis using Obj by simp
  next
    case True
    show ?thesis
    proof (cases plugin)
      case None
      have "state_after (createNode env st (Obj node) None traceId) =
              st\<lparr>tracked := tracked st @ [stampNode env node None]\<rparr>"
        using True None by (simp add: createNode_no_plugin del: stampNode_None)
      then show ?thesis unfolding Obj None by blast
    next
      case (Some p)
      have v: "passesValidation env node (Some p)" using True Some by simp
      show ?thesis
        unfolding Obj Some createNode_plugin [OF v] Let_def
        by (auto split: sum.splits option.splits)
    qed
  qed
qed

lemma createNode_keeps_typeOwner:
  assumes "typeOwners st t = Some typeOwner" and "typeOwner \<noteq> []"
  shows "typeOwners (state_after (createNode env st arg plugin traceId)) t = Some typeOwner"
proof -
  have "\<And>node. typeOwners (st\<lparr>tracked := tracked st @ [node]\<rparr>) t = Some typeOwner"
    using assms(1) by simp
  then show ?thesis
    using createNode_state_cases [of env st arg plugin traceId] assms
    by (auto dest: claimType_keeps [rotated 2])
qed

lemma createNodeCalls_keeps_typeOwner:
  "typeOwners st t = Some typeOwner \<Longrightarrow> typeOwner \<noteq> [] \<Longrightarrow>
   typeOwners (createNodeCalls env st calls) t = Some typeOwner"
proof (induction calls arbitrary: st)
  case Nil
  then show ?case by simp
next
  case (Cons call calls)
  obtain stored arg plugin traceId where c: "call = (stored, arg, plugin, traceId)"
    by (cases call) auto
  have "typeOwners (st\<lparr>nodes := stored\<rparr>) t = Some typeOwner" using Cons.prems(1) by simp
  then have "typeOwners (state_after (createNode env (st\<lparr>nodes := stored\<rparr>) arg plugin traceId)) t
               = Some typeOwner"
    using Cons.prems(2) by (rule createNode_keeps_typeOwner)
  then show ?case using Cons.IH Cons.prems(2) c by simp
qed

lemma createNode_first_claim:
  assumes "passesValidation env node (Some p)"
    and "\<not> truthy_prop (getProperty (typeOwners st) (typeKey node))"
  shows "typeOwners (state_after (createNode env st (Obj node) (Some p) traceId)) (typeKey node)
           = Some (name p)"
proof -
  let ?n = "stampNode env node (Some p)"
  let ?st1 = "st\<lparr>tracked := tracked st @ [?n]\<rparr>"
  have "\<not> truthy_prop (getProperty (typeOwners ?st1) (typeKey ?n))" using assms(2) by simp
  then have "claimType ?st1 ?n p = Inr (?st1\<lparr>typeOwners := (typeOwners ?st1)(typeKey ?n \<mapsto> name p)\<rparr>)"
    by (rule claimType_unclaimed)
  then show ?thesis
    unfolding createNode_plugin [OF assms(1)] Let_def
    by (simp split: option.splits)
qed

lemma createNode_type_granted:
  assumes "passesValidation env node (Some p)"
    and "typeOwners st (typeKey node) = Some (name p)" and "name p \<noteq> []"
  shows "createNode env st (Obj node) (Some p) traceId =
           (let node2 = stampNode env node (Some p);
                st1 = st\<lparr>tracked := tracked st @ [node2]\<rparr>
            in case checkNodeOwner (getNode st (id node2)) node2 p of
                 Some e \<Rightarrow> \<lparr>result = Inl e, node_after = Obj node2, state_after = st1, console = []\<rparr>
               | None \<Rightarrow>
                   \<lparr>result = Inr (Some (touchOrCreate st node2 (Some p) traceId)),
                    node_after = Obj node2, state_after = st1, console = []\<rparr>)"
proof -
  let ?n = "stampNode env node (Some p)"
  let ?st1 = "st\<lparr>tracked := tracked st @ [?n]\<rparr>"
  have "typeOwners ?st1 (typeKey ?n) = Some (name p)" using assms(2) by simp
  then have "claimType ?st1 ?n p = Inr ?st1" using assms(3) by (rule claimType_same)
  then show ?thesis
    unfolding createNode_plugin [OF assms(1)] Let_def by simp
qed

lemma createNode_type_denied:
  assumes "passesValidation env node (Some q)"
    and "claimType (st\<lparr>tracked := tracked st @ [stampNode env node (Some q)]\<rparr>)
           (stampNode env node (Some q)) q = Inl e"
  shows "createNode env st (Obj node) (Some q) traceId =
           \<lparr>result = Inl e,
            node_after = Obj (stampNode env node (Some q)),
            state_after = st\<lparr>tracked := tracked st @ [stampNode env node (Some q)]\<rparr>,
            console = []\<rparr>"
  unfolding createNode_plugin [OF assms(1)] Let_def using assms(2) by simp

lemma createNode_type_owned:
  assumes "passesValidation env node (Some q)"
    and "typeOwners st (typeKey node) = Some typeOwner" and "typeOwner \<noteq> []" and "typeOwner \<noteq> name q"
  shows "createNode env st (Obj node) (Some q) traceId =
           \<lparr>result = Inl (TypeOwnedByAnotherPlugin (name q) (typeKey node) (Own typeOwner)
                            (stampNode env node (Some q)) q),
            node_after = Obj (stampNode env node (Some q)),
            state_after = st\<lparr>tracked := tracked st @ [stampNode env node (Some q)]\<rparr>,
            console = []\<rparr>"
proof -
  let ?n = "stampNode env node (Some q)"
  let ?st1 = "st\<lparr>tracked := tracked st @ [?n]\<rparr>"
  have "typeOwners ?st1 (typeKey ?n) = Some typeOwner" using assms(2) by simp
  then have "claimType ?st1 ?n q = Inl (TypeOwnedByAnotherPlugin (name q) (typeKey ?n) (Own typeOwner) ?n q)"
    using assms(3,4) by (rule claimType_other)
  then show ?thesis
    using createNode_type_denied [OF assms(1), of st _ traceId] by simp
qed

lemma createNode_inherited_type:
  assumes "passesValidation env node (Some p)"
    and "typeKey node \<in> set objectPrototypeKeys" and "typeOwners st (typeKey node) = None"
  shows "result (createNode env st (Obj node) (Some p) traceId) =
           Inl (TypeOwnedByAnotherPlugin (name p) (typeKey node) Inherited
                  (stampNode env node (Some p)) p)"
    and "typeOwners (state_after (createNode env st (Obj node) (Some p) traceId)) = typeOwners st"
proof -
  let ?n = "stampNode env node (Some p)"
  let ?st1 = "st\<lparr>tracked := tracked st @ [?n]\<rparr>"
  have "typeOwners ?st1 (typeKey ?n) = None" and "typeKey ?n \<in> set objectPrototypeKeys"
    using assms(2,3) by simp_all
  then have c: "claimType ?st1 ?n p = Inl (TypeOwnedByAnotherPlugin (name p) (typeKey ?n) Inherited ?n p)"
    by (rule claimType_inherited)
  show "result (createNode env st (Obj node) (Some p) traceId) =
           Inl (TypeOwnedByAnotherPlugin (name p) (typeKey node) Inherited ?n p)"
    and "typeOwners (state_after (createNode env st (Obj node) (Some p) traceId)) = typeOwners st"
    unfolding createNode_type_denied [OF assms(1) c] by simp_all
qed

text \<open>
  Types of ordinary names, those that are not the name of a property of
  \<^verbatim>\<open>Object.prototype\<close>, are first come first served: when a plugin with a non-empty name creates a node of such a
  type that has no owner yet (the call passing the validation), the plugin is recorded as
  the owner of the type, and it is still the owner after any further calls of
  \<^verbatim>\<open>createNode\<close>, whatever the store holds at each. From then on a node of that type
  from the same plugin is granted: the claim leaves the state as it is, and only the
  node-owner check stands between the call and its action. A node of that type from a
  plugin of another name is rejected with the error that names both plugins, the type and
  the node, whatever the node's id and whatever is stored.
\<close>

lemma type_ownership_of_ordinary_names:
  assumes "passesValidation env node (Some p)"
    and "name p \<noteq> []"
    and "\<not> truthy_str (typeOwners st (typeKey node))"
    and "st' = createNodeCalls env (state_after (createNode env st (Obj node) (Some p) traceId)) calls"
    and "typeKey node \<notin> set objectPrototypeKeys"
  shows "typeOwners st' (typeKey node) = Some (name p)
         \<and> (passesValidation env nodeP (Some p) \<and> typeKey nodeP = typeKey node \<longrightarrow>
              (let node2 = stampNode env nodeP (Some p);
                   out = createNode env (st'\<lparr>nodes := storedP\<rparr>) (Obj nodeP) (Some p) traceIdP
               in claimType (st'\<lparr>nodes := storedP\<rparr>) node2 p = Inr (st'\<lparr>nodes := storedP\<rparr>)
                  \<and> typeOwners (state_after out) = typeOwners st'
                  \<and> result out =
                      (case checkNodeOwner (storedP (id node2)) node2 p of
                         Some e \<Rightarrow> Inl e
                       | None \<Rightarrow>
                           Inr (Some (touchOrCreate (st'\<lparr>nodes := storedP\<rparr>) node2 (Some p) traceIdP)))
                  \<and> (storedP (id node2) = None \<longrightarrow>
                       result out = Inr (Some (CREATE_NODE (Some p) traceIdP node2)))))
         \<and> (passesValidation env nodeQ (Some q) \<and> typeKey nodeQ = typeKey node \<and> name q \<noteq> name p \<longrightarrow>
              result (createNode env (st'\<lparr>nodes := storedQ\<rparr>) (Obj nodeQ) (Some q) traceIdQ) =
                Inl (TypeOwnedByAnotherPlugin (name q) (typeKey node) (Own (name p))
                       (stampNode env nodeQ (Some q)) q)
              \<and> typeOwners (state_after (createNode env (st'\<lparr>nodes := storedQ\<rparr>) (Obj nodeQ) (Some q) traceIdQ))
                  = typeOwners st')"
proof -
  have first: "typeOwners (state_after (createNode env st (Obj node) (Some p) traceId)) (typeKey node)
                 = Some (name p)"
  proof (rule createNode_first_claim [OF assms(1)])
    show "\<not> truthy_prop (getProperty (typeOwners st) (typeKey node))"
      using assms(3,5) by (cases "typeOwners st (typeKey node)") (simp_all add: getProperty_ordinary)
  qed
  have owner: "typeOwners st' (typeKey node) = Some (name p)"
    unfolding assms(4) using first assms(2) by (rule createNodeCalls_keeps_typeOwner)
  have same: "passesValidation env nodeP (Some p) \<and> typeKey nodeP = typeKey node \<longrightarrow>
              (let node2 = stampNode env nodeP (Some p);
                   out = createNode env (st'\<lparr>nodes := storedP\<rparr>) (Obj nodeP) (Some p) traceIdP
               in claimType (st'\<lparr>nodes := storedP\<rparr>) node2 p = Inr (st'\<lparr>nodes := storedP\<rparr>)
                  \<and> typeOwners (state_after out) = typeOwners st'
                  \<and> result out =
                      (case checkNodeOwner (storedP (id node2)) node2 p of
                         Some e \<Rightarrow> Inl e
                       | None \<Rightarrow>
                           Inr (Some (touchOrCreate (st'\<lparr>nodes := storedP\<rparr>) node2 (Some p) traceIdP)))
                  \<and> (storedP (id node2) = None \<longrightarrow>
                       result out = Inr (Some (CREATE_NODE (Some p) traceIdP node2))))"
  proof
    assume h: "passesValidation env nodeP (Some p) \<and> typeKey nodeP = typeKey node"
    let ?s = "st'\<lparr>nodes := storedP\<rparr>"
    have t: "typeOwners ?s (typeKey nodeP) = Some (name p)" using owner h by simp
    have t': "typeOwners ?s (typeKey (stampNode env nodeP (Some p))) = Some (name p)"
      using t by simp
    have g: "claimType ?s (stampNode env nodeP (Some p)) p = Inr ?s"
      using t' assms(2) by (rule claimType_same)
    show "(let node2 = stampNode env nodeP (Some p);
               out = createNode env ?s (Obj nodeP) (Some p) traceIdP
           in claimType ?s node2 p = Inr ?s
              \<and> typeOwners (state_after out) = typeOwners st'
              \<and> result out =
                  (case checkNodeOwner (storedP (id node2)) node2 p of
                     Some e \<Rightarrow> Inl e
                   | None \<Rightarrow> Inr (Some (touchOrCreate ?s node2 (Some p) traceIdP)))
              \<and> (storedP (id node2) = None \<longrightarrow>
                   result out = Inr (Some (CREATE_NODE (Some p) traceIdP node2))))"
      unfolding Let_def createNode_type_granted [OF conjunct1 [OF h] t assms(2)]
      using g
      by (simp add: getNode_def checkNodeOwner_def touchOrCreate_def split: option.splits)
  qed
  have other: "passesValidation env nodeQ (Some q) \<and> typeKey nodeQ = typeKey node \<and> name q \<noteq> name p \<longrightarrow>
              result (createNode env (st'\<lparr>nodes := storedQ\<rparr>) (Obj nodeQ) (Some q) traceIdQ) =
                Inl (TypeOwnedByAnotherPlugin (name q) (typeKey node) (Own (name p))
                       (stampNode env nodeQ (Some q)) q)
              \<and> typeOwners (state_after (createNode env (st'\<lparr>nodes := storedQ\<rparr>) (Obj nodeQ) (Some q) traceIdQ))
                  = typeOwners st'"
  proof
    assume h: "passesValidation env nodeQ (Some q) \<and> typeKey nodeQ = typeKey node \<and> name q \<noteq> name p"
    let ?s = "st'\<lparr>nodes := storedQ\<rparr>"
    have t: "typeOwners ?s (typeKey nodeQ) = Some (name p)" using owner h by simp
    have ne: "name p \<noteq> name q" using h by auto
    show "result (createNode env ?s (Obj nodeQ) (Some q) traceIdQ) =
                Inl (TypeOwnedByAnotherPlugin (name q) (typeKey node) (Own (name p))
                       (stampNode env nodeQ (Some q)) q)
              \<and> typeOwners (state_after (createNode env ?s (Obj nodeQ) (Some q) traceIdQ))
                  = typeOwners st'"
      unfolding createNode_type_owned [OF conjunct1 [OF h] t assms(2) ne]
      using h by simp
  qed
  show ?thesis using owner same other by blast
qed


lemma type_ownership_of_ordinary_names_example:
  "typeOwners later_state ''Post'' = Some ''gatsby-source-a''
   \<and> result (createNode sample_env (later_state\<lparr>nodes := Map.empty\<rparr>) (Obj edited_post)
         (Some plugin_a) None) =
       Inr (Some (CREATE_NODE (Some plugin_a) None (stampNode sample_env edited_post (Some plugin_a))))
   \<and> result (createNode sample_env (later_state\<lparr>nodes := Map.empty\<rparr>) (Obj other_post)
         (Some plugin_b) None) =
       Inl (TypeOwnedByAnotherPlugin ''gatsby-source-b'' ''Post'' (Own ''gatsby-source-a'')
              (stampNode sample_env other_post (Some plugin_b)) plugin_b)"
proof -
  have v: "passesValidation sample_env post_node (Some plugin_a)"
    by (simp add: fixture_defs createNode_eval)
  have n: "name plugin_a \<noteq> []" by (simp add: plugin_a_def)
  have u: "\<not> truthy_str (typeOwners sample_state (typeKey post_node))"
    by (simp add: fixture_defs typeKey_def)
  have vp: "passesValidation sample_env edited_post (Some plugin_a) \<and> typeKey edited_post = typeKey post_node"
    by (simp add: fixture_defs createNode_eval typeKey_def)
  have vq: "passesValidation sample_env other_post (Some plugin_b)
            \<and> typeKey other_post = typeKey post_node \<and> name plugin_b \<noteq> name plugin_a"
    by (simp add: fixture_defs other_post_def createNode_eval typeKey_def)
  have k: "typeKey post_node = ''Post''" "name plugin_a = ''gatsby-source-a''"
    "name plugin_b = ''gatsby-source-b''"
    by (simp_all add: fixture_defs typeKey_def internalOf_def)
  have ord: "typeKey post_node \<notin> set objectPrototypeKeys"
    by (simp add: fixture_defs typeKey_def internalOf_def objectPrototypeKeys_def)
  show ?thesis
    using type_ownership_of_ordinary_names [OF v n u later_state_def ord,
        of edited_post Map.empty None other_post plugin_b Map.empty None] vp vq
    unfolding Let_def k
    by (simp add: checkNodeOwner_def touchOrCreate_def getNode_def)
qed


text \<open>
  C2 fails on the code for a type named like a property of \<^verbatim>\<open>Object.prototype\<close>. No
  plugin owns the type \<^verbatim>\<open>constructor\<close>, and the first plugin that creates a node of
  it is not recorded as its owner: \<^verbatim>\<open>typeOwners\<close> is an ordinary object, so line 391
  reads the inherited \<^verbatim>\<open>Object.prototype.constructor\<close>, which is truthy and is not the
  plugin's name, and line 394 throws the error of a type owned by another plugin.
  \<^verbatim>\<open>typeOwners\<close> is left without an entry for the type, so every later call for it
  ends the same way.
\<close>

theorem first_node_of_type_constructor_rejected:
  "typeOwners sample_state ''constructor'' = None
   \<and> passesValidation sample_env constructor_node (Some plugin_a)
   \<and> result (createNode sample_env sample_state (Obj constructor_node) (Some plugin_a) None) =
       Inl (TypeOwnedByAnotherPlugin ''gatsby-source-a'' ''constructor'' Inherited
              (stampNode sample_env constructor_node (Some plugin_a)) plugin_a)
   \<and> typeOwners (state_after
         (createNode sample_env sample_state (Obj constructor_node) (Some plugin_a) None))
         ''constructor'' = None"
proof -
  have v: "passesValidation sample_env constructor_node (Some plugin_a)"
    by (simp add: fixture_defs constructor_node_def createNode_eval)
  have k: "typeKey constructor_node = ''constructor''"
    by (simp add: constructor_node_def typeKey_def internalOf_def)
  have i: "typeKey constructor_node \<in> set objectPrototypeKeys"
    unfolding k by (simp add: objectPrototypeKeys_def)
  have u: "typeOwners sample_state (typeKey constructor_node) = None"
    by (simp add: sample_state_def)
  have n: "name plugin_a = ''gatsby-source-a''" by (simp add: plugin_a_def)
  show ?thesis
    using createNode_inherited_type [OF v i u, of None] v u
    unfolding k n by simp
qed

subsection \<open>Node ownership\<close>

text \<open>
  C1 as it is stated fails: \<^verbatim>\<open>touchNode\<close> checks no owner. The node stored under the
  id below is owned by gatsby-source-a, and gatsby-source-b touches it and gets its
  \<^verbatim>\<open>TOUCH_NODE\<close> action.
\<close>

theorem touchNode_unchecked_counterexample:
  "getNode state_with_post ''post-1 >>> gatsby-source-a'' = Some stored_post
   \<and> owner (internalOf stored_post) = Some ''gatsby-source-a''
   \<and> name plugin_b = ''gatsby-source-b''
   \<and> touchNode ''post-1 >>> gatsby-source-a'' (Some plugin_b) =
       TOUCH_NODE (Some plugin_b) None ''post-1 >>> gatsby-source-a''"
  by (simp add: fixture_defs getNode_def internalOf_def touchNode_def)

lemma createNode_event_valid:
  assumes "result (createNode env st (Obj node) plugin traceId) = Inr (Some a)"
    and "a \<noteq> VALIDATION_ERROR"
  shows "passesValidation env node plugin"
proof (rule ccontr)
  assume nv: "\<not> passesValidation env node plugin"
  show False
  proof (cases "truthy_str (owner (internalOf node))")
    case True
    then show False using assms(1) by (simp add: createNode_owner_set)
  next
    case nt: False
    show False
    proof (cases "validate_node env (stampNode env node plugin)")
      case (Some err)
      show False using createNode_invalid [OF nt Some, of st traceId] assms by simp
    next
      case None
      then have "fields' node \<noteq> None" using nv nt by (simp add: passesValidation_def)
      then show False using createNode_reserved_fields [OF nt None, of st traceId] assms(1) by simp
    qed
  qed
qed

text \<open>
  C1, amended: \<^verbatim>\<open>createNode\<close> is the operation that checks the owner of a node. When a
  plugin submits a node that passes the validation, and a node is stored under the id the
  node gets, with an owner other than the plugin, the call ends in an error: the
  node-owner error when the type claim is granted, else the type error. So whenever
  \<^verbatim>\<open>createNode\<close> returns a \<^verbatim>\<open>TOUCH_NODE\<close> or \<^verbatim>\<open>CREATE_NODE\<close> action to a plugin and
  a node is stored under that id, the stored owner is the plugin, and so is the owner of
  the submitted node.
\<close>

theorem createNode_checks_node_owner:
  "(passesValidation env node (Some p)
      \<and> getNode st (id (stampNode env node (Some p))) = Some old
      \<and> internal old = Some oldInternal
      \<and> owner oldInternal \<noteq> Some (name p) \<longrightarrow>
      isl (result (createNode env st (Obj node) (Some p) traceId))
      \<and> (\<not> isl (claimType st (stampNode env node (Some p)) p) \<longrightarrow>
           result (createNode env st (Obj node) (Some p) traceId) =
             Inl (NodeOwnedByAnotherPlugin (id (stampNode env node (Some p))) (owner oldInternal) (name p))))
   \<and> (result (createNode env st (Obj node) (Some p) traceId) = Inr (Some a)
      \<and> a \<noteq> VALIDATION_ERROR
      \<and> getNode st (id (stampNode env node (Some p))) = Some old \<longrightarrow>
      owner (internalOf old) = Some (name p)
      \<and> owner (internalOf (stampNode env node (Some p))) = Some (name p)
      \<and> (a = TOUCH_NODE (Some p) traceId (id (stampNode env node (Some p)))
          \<or> a = CREATE_NODE (Some p) traceId (stampNode env node (Some p))))"
proof -
  let ?n = "stampNode env node (Some p)"
  let ?out = "createNode env st (Obj node) (Some p) traceId"
  have shape: "passesValidation env node (Some p) \<Longrightarrow>
     result ?out =
       (case claimType st ?n p of
          Inl e \<Rightarrow> Inl e
        | Inr st2 \<Rightarrow>
            (case checkNodeOwner (getNode st (id ?n)) ?n p of
               Some e \<Rightarrow> Inl e
             | None \<Rightarrow> Inr (Some (touchOrCreate st ?n (Some p) traceId))))"
    by (simp add: createNode_plugin Let_def claimType_tracked split: sum.splits option.splits)
  have rejected: "passesValidation env node (Some p)
      \<and> getNode st (id ?n) = Some old \<and> internal old = Some oldInternal
      \<and> owner oldInternal \<noteq> Some (name p) \<longrightarrow>
      isl (result ?out)
      \<and> (\<not> isl (claimType st ?n p) \<longrightarrow>
           result ?out = Inl (NodeOwnedByAnotherPlugin (id ?n) (owner oldInternal) (name p)))"
  proof
    assume h: "passesValidation env node (Some p)
      \<and> getNode st (id ?n) = Some old \<and> internal old = Some oldInternal
      \<and> owner oldInternal \<noteq> Some (name p)"
    then have c: "checkNodeOwner (getNode st (id ?n)) ?n p =
                    Some (NodeOwnedByAnotherPlugin (id ?n) (owner oldInternal) (name p))"
      by (simp add: checkNodeOwner_def)
    show "isl (result ?out)
      \<and> (\<not> isl (claimType st ?n p) \<longrightarrow>
           result ?out = Inl (NodeOwnedByAnotherPlugin (id ?n) (owner oldInternal) (name p)))"
      using shape [OF conjunct1 [OF h]] c by (simp split: sum.splits)
  qed
  have accepted: "result ?out = Inr (Some a) \<and> a \<noteq> VALIDATION_ERROR
      \<and> getNode st (id ?n) = Some old \<longrightarrow>
      owner (internalOf old) = Some (name p)
      \<and> owner (internalOf ?n) = Some (name p)
      \<and> (a = TOUCH_NODE (Some p) traceId (id ?n) \<or> a = CREATE_NODE (Some p) traceId ?n)"
  proof
    assume h: "result ?out = Inr (Some a) \<and> a \<noteq> VALIDATION_ERROR \<and> getNode st (id ?n) = Some old"
    then have v: "passesValidation env node (Some p)"
      using createNode_event_valid [of env st node "Some p" traceId a] by simp
    have g: "getNode st (id ?n) = Some old" and r: "result ?out = Inr (Some a)"
      using h by simp_all
    have c: "checkNodeOwner (Some old) ?n p = None"
      and a: "a = touchOrCreate st ?n (Some p) traceId"
      using shape [OF v] unfolding g r
      by (auto split: sum.splits option.splits)
    have o: "owner (internalOf old) = Some (name p)"
      using c by (simp add: checkNodeOwner_def internalOf_def split: option.splits if_splits)
    show "owner (internalOf old) = Some (name p)
      \<and> owner (internalOf ?n) = Some (name p)
      \<and> (a = TOUCH_NODE (Some p) traceId (id ?n) \<or> a = CREATE_NODE (Some p) traceId ?n)"
      using o a by (simp add: stampNode_internal touchOrCreate_def)
  qed
  show ?thesis using rejected accepted by blast
qed


theorem createNode_checks_node_owner_witness:
  "result (createNode sample_env state_with_unowned (Obj page_node) (Some plugin_b) None) =
     Inl (NodeOwnedByAnotherPlugin ''page-1 >>> gatsby-source-b'' None ''gatsby-source-b'')
   \<and> result (createNode sample_env state_with_post (Obj post_node) (Some plugin_a) None) =
       Inr (Some (TOUCH_NODE (Some plugin_a) None ''post-1 >>> gatsby-source-a''))
   \<and> getNode state_with_post ''post-1 >>> gatsby-source-a'' = Some stored_post
   \<and> owner (internalOf stored_post) = Some ''gatsby-source-a''"
proof -
  have v: "passesValidation sample_env page_node (Some plugin_b)"
    by (simp add: fixture_defs page_node_def createNode_eval)
  have i: "id (stampNode sample_env page_node (Some plugin_b)) = ''page-1 >>> gatsby-source-b''"
    by (simp add: fixture_defs page_node_def createNode_eval)
  have g: "getNode state_with_unowned ''page-1 >>> gatsby-source-b'' =
             Some \<lparr>id = ''page-1 >>> gatsby-source-b'', children = [],
                   internal = Some \<lparr>type = Some ''SitePage'', contentDigest = Some ''digest-8'',
                                    owner = None, fieldOwners = None\<rparr>,
                   fields' = None\<rparr>"
    by (simp add: state_with_unowned_def getNode_def)
  have c: "\<not> isl (claimType state_with_unowned (stampNode sample_env page_node (Some plugin_b)) plugin_b)"
    by (simp add: fixture_defs state_with_unowned_def page_node_def createNode_eval)
  have n: "name plugin_b = ''gatsby-source-b''" "name plugin_a = ''gatsby-source-a''"
    by (simp_all add: plugin_a_def plugin_b_def)
  have rejected: "result (createNode sample_env state_with_unowned (Obj page_node) (Some plugin_b) None) =
     Inl (NodeOwnedByAnotherPlugin ''page-1 >>> gatsby-source-b'' None ''gatsby-source-b'')"
    using createNode_checks_node_owner [where env = sample_env and node = page_node
        and p = plugin_b and st = state_with_unowned and traceId = None
        and old = "\<lparr>id = ''page-1 >>> gatsby-source-b'', children = [],
                   internal = Some \<lparr>type = Some ''SitePage'', contentDigest = Some ''digest-8'',
                                    owner = None, fieldOwners = None\<rparr>,
                   fields' = None\<rparr>"
        and oldInternal = "\<lparr>type = Some ''SitePage'', contentDigest = Some ''digest-8'',
                           owner = None, fieldOwners = None\<rparr>"]
      v g c
    unfolding i n by simp
  have v2: "passesValidation sample_env post_node (Some plugin_a)"
    by (simp add: fixture_defs createNode_eval)
  have o2: "passesOwnership state_with_post (stampNode sample_env post_node (Some plugin_a)) (Some plugin_a)"
    by (simp add: fixture_defs createNode_eval)
  have s: "stampNode sample_env post_node (Some plugin_a) = stored_post"
    by (simp add: fixture_defs createNode_eval)
  have t: "result (createNode sample_env state_with_post (Obj post_node) (Some plugin_a) None) =
       Inr (Some (TOUCH_NODE (Some plugin_a) None ''post-1 >>> gatsby-source-a''))"
    unfolding createNode_passes(1) [OF v2 o2] s
    by (simp add: touchOrCreate_def classify_def fixture_defs createNode_eval)
  have g2: "getNode state_with_post (id stored_post) = Some stored_post"
    by (simp add: fixture_defs getNode_def)
  have i2: "id stored_post = ''post-1 >>> gatsby-source-a''" by (simp add: stored_post_def)
  have accepted: "owner (internalOf stored_post) = Some ''gatsby-source-a''"
    using createNode_checks_node_owner [where env = sample_env and node = post_node
        and p = plugin_a and st = state_with_post and traceId = None and old = stored_post
        and a = "TOUCH_NODE (Some plugin_a) None ''post-1 >>> gatsby-source-a''"]
      t g2 i2
    unfolding s n by simp
  show ?thesis using rejected t accepted g2 i2 by simp
qed


subsection \<open>createNodeField\<close>


lemma nodeField_withContainers [simp]: "nodeField (withContainers node) key = nodeField node key"
  by (simp add: nodeField_def withContainers_def split: option.splits)

lemma nodeFieldOwner_withContainers [simp]:
  "internal node \<noteq> None \<Longrightarrow> nodeFieldOwner (withContainers node) key = nodeFieldOwner node key"
  by (auto simp: nodeFieldOwner_def withContainers_def internalOf_def split: option.splits)

lemma readFieldOwner_ordinary:
  "internal node \<noteq> None \<Longrightarrow> key \<notin> set objectPrototypeKeys \<Longrightarrow>
   readFieldOwner node key = (case nodeFieldOwner node key of None \<Rightarrow> Undefined | Some s \<Rightarrow> Own s)"
  by (auto simp: readFieldOwner_def nodeFieldOwner_def internalOf_def getProperty_ordinary
      split: option.splits)

lemma readFieldOwner_inherited:
  "internal node \<noteq> None \<Longrightarrow> key \<in> set objectPrototypeKeys \<Longrightarrow> nodeFieldOwner node key = None \<Longrightarrow>
   readFieldOwner node key = Inherited"
  by (auto simp: readFieldOwner_def nodeFieldOwner_def internalOf_def getProperty_def
      split: option.splits)

lemma createNodeField_denied:
  assumes "internal node \<noteq> None"
    and "truthy_prop (readFieldOwner node (fieldKey name0 fieldName))"
    and "readFieldOwner node (fieldKey name0 fieldName) \<noteq> Own (name plugin)"
  shows "createNodeField node name0 value0 fieldName fieldValue plugin traceId =
     (Inl (FieldOwnedByAnotherPlugin (id node) (name plugin) (fieldKey name0 fieldName)
             (effectiveValue value0 fieldValue)),
      withContainers node, deprecations fieldName fieldValue)"
  using assms
  by (auto simp: createNodeField_def Let_def readFieldOwner_def withContainers_def internalOf_def
      split: option.splits)

lemma createNodeField_granted:
  assumes "internal node \<noteq> None"
    and "\<not> truthy_prop (readFieldOwner node (fieldKey name0 fieldName))
         \<or> readFieldOwner node (fieldKey name0 fieldName) = Own (name plugin)"
  shows "createNodeField node name0 value0 fieldName fieldValue plugin traceId =
     (let key = fieldKey name0 fieldName;
          node1 = withContainers node;
          node2 = node1\<lparr>fields' := Some (setProperty (case fields' node of None \<Rightarrow> Map.empty | Some m \<Rightarrow> m)
                                        key (effectiveValue value0 fieldValue)),
                        internal := Some ((internalOf node1)\<lparr>fieldOwners :=
                           Some (setProperty (case fieldOwners (internalOf node) of None \<Rightarrow> Map.empty | Some m \<Rightarrow> m)
                                   key (name plugin))\<rparr>)\<rparr>
      in (Inr (ADD_FIELD_TO_NODE plugin traceId node2), node2, deprecations fieldName fieldValue))"
  using assms
  by (auto simp: createNodeField_def Let_def readFieldOwner_def withContainers_def internalOf_def
      split: option.splits)

lemma createNodeField_granted_facts:
  assumes "internal node \<noteq> None"
    and "\<not> truthy_prop (readFieldOwner node (fieldKey name0 fieldName))
         \<or> readFieldOwner node (fieldKey name0 fieldName) = Own (name plugin)"
    and "createNodeField node name0 value0 fieldName fieldValue plugin traceId = (r, node', w)"
  shows "r = Inr (ADD_FIELD_TO_NODE plugin traceId node')"
    and "internal node' \<noteq> None"
    and "id node' = id node"
  using assms(3) unfolding createNodeField_granted [OF assms(1,2)] Let_def
  by (auto simp: withContainers_def)

lemma createNodeField_granted_ordinary:
  assumes "internal node \<noteq> None"
    and "\<not> truthy_prop (readFieldOwner node (fieldKey name0 fieldName))
         \<or> readFieldOwner node (fieldKey name0 fieldName) = Own (name plugin)"
    and "fieldKey name0 fieldName \<notin> set objectPrototypeKeys"
    and "createNodeField node name0 value0 fieldName fieldValue plugin traceId = (r, node', w)"
  shows "nodeField node' key =
           (if key = fieldKey name0 fieldName then Some (effectiveValue value0 fieldValue)
            else nodeField node key)"
    and "nodeFieldOwner node' key =
           (if key = fieldKey name0 fieldName then Some (name plugin)
            else nodeFieldOwner node key)"
proof -
  have p: "fieldKey name0 fieldName \<noteq> ''__proto__''"
    using assms(3) by (auto simp: objectPrototypeKeys_def)
  show "nodeField node' key =
           (if key = fieldKey name0 fieldName then Some (effectiveValue value0 fieldValue)
            else nodeField node key)"
    and "nodeFieldOwner node' key =
           (if key = fieldKey name0 fieldName then Some (name plugin)
            else nodeFieldOwner node key)"
    using assms(4) unfolding createNodeField_granted [OF assms(1,2)] Let_def
    using assms(1) p
    by (auto simp: nodeField_def nodeFieldOwner_def withContainers_def internalOf_def
        setProperty_def split: option.splits)
qed

lemma createNodeField_inherited:
  assumes "internal node \<noteq> None"
    and "fieldKey name0 fieldName \<in> set objectPrototypeKeys"
    and "nodeFieldOwner node (fieldKey name0 fieldName) = None"
  shows "createNodeField node name0 value0 fieldName fieldValue plugin traceId =
     (Inl (FieldOwnedByAnotherPlugin (id node) (name plugin) (fieldKey name0 fieldName)
             (effectiveValue value0 fieldValue)),
      withContainers node, deprecations fieldName fieldValue)"
proof -
  have r: "readFieldOwner node (fieldKey name0 fieldName) = Inherited"
    using assms by (rule readFieldOwner_inherited)
  show ?thesis by (rule createNodeField_denied [OF assms(1)]) (simp_all add: r)
qed

text \<open>
  Fields of ordinary names, those that are not the name of a property of
  \<^verbatim>\<open>Object.prototype\<close>, belong to their first writer: on a node with an \<^verbatim>\<open>internal\<close> object and such a field that
  no other plugin owns, two calls of \<^verbatim>\<open>createNodeField\<close> by the same plugin for the
  field both return their \<^verbatim>\<open>ADD_FIELD_TO_NODE\<close> action; after each the field holds the
  value of that call, so the second value replaces the first, and the plugin is the
  owner of the field from the first call on. When the plugin's name is not empty, a call
  for the same field by a plugin of another name, after the first or the second call, is
  rejected with the field-owner error whatever its value, and the field keeps its value
  and its owner.
\<close>

lemma createNodeField_of_ordinary_names:
  assumes "internal node \<noteq> None"
    and "key \<notin> set objectPrototypeKeys"
    and "\<not> truthy_str (nodeFieldOwner node key) \<or> nodeFieldOwner node key = Some (name p)"
    and "fieldKey name1 fieldName1 = key" and "fieldKey name2 fieldName2 = key"
    and "createNodeField node name1 value1 fieldName1 fieldValue1 p traceId1 = (r1, node1, w1)"
    and "createNodeField node1 name2 value2 fieldName2 fieldValue2 p traceId2 = (r2, node2, w2)"
  shows "r1 = Inr (ADD_FIELD_TO_NODE p traceId1 node1)
         \<and> r2 = Inr (ADD_FIELD_TO_NODE p traceId2 node2)
         \<and> nodeField node1 key = Some (effectiveValue value1 fieldValue1)
         \<and> nodeField node2 key = Some (effectiveValue value2 fieldValue2)
         \<and> nodeFieldOwner node1 key = Some (name p)
         \<and> nodeFieldOwner node2 key = Some (name p)
         \<and> (name p \<noteq> [] \<and> name q \<noteq> name p \<and> fieldKey name3 fieldName3 = key \<longrightarrow>
              fst (createNodeField node1 name3 value3 fieldName3 fieldValue3 q traceId3) =
                Inl (FieldOwnedByAnotherPlugin (id node) (name q) key (effectiveValue value3 fieldValue3))
              \<and> fst (createNodeField node2 name3 value3 fieldName3 fieldValue3 q traceId3) =
                Inl (FieldOwnedByAnotherPlugin (id node) (name q) key (effectiveValue value3 fieldValue3))
              \<and> nodeField (fst (snd (createNodeField node2 name3 value3 fieldName3 fieldValue3 q traceId3))) key
                  = Some (effectiveValue value2 fieldValue2)
              \<and> nodeFieldOwner (fst (snd (createNodeField node2 name3 value3 fieldName3 fieldValue3 q traceId3))) key
                  = Some (name p))"
proof -
  have k1: "fieldKey name1 fieldName1 \<notin> set objectPrototypeKeys"
    and k2: "fieldKey name2 fieldName2 \<notin> set objectPrototypeKeys"
    using assms(2,4,5) by simp_all
  have g1: "\<not> truthy_prop (readFieldOwner node (fieldKey name1 fieldName1))
            \<or> readFieldOwner node (fieldKey name1 fieldName1) = Own (name p)"
    using assms(3,4) readFieldOwner_ordinary [OF assms(1) k1]
    by (auto split: option.splits)
  note f1 = createNodeField_granted_facts [OF assms(1) g1 assms(6)]
  note h1 = createNodeField_granted_ordinary [OF assms(1) g1 k1 assms(6)]
  have o1: "nodeFieldOwner node1 key = Some (name p)" using h1(2) [of key] assms(4) by simp
  have v1: "nodeField node1 key = Some (effectiveValue value1 fieldValue1)"
    using h1(1) [of key] assms(4) by simp
  have g2: "\<not> truthy_prop (readFieldOwner node1 (fieldKey name2 fieldName2))
            \<or> readFieldOwner node1 (fieldKey name2 fieldName2) = Own (name p)"
    using o1 assms(5) readFieldOwner_ordinary [OF f1(2) k2] by simp
  note f2 = createNodeField_granted_facts [OF f1(2) g2 assms(7)]
  note h2 = createNodeField_granted_ordinary [OF f1(2) g2 k2 assms(7)]
  have o2: "nodeFieldOwner node2 key = Some (name p)" using h2(2) [of key] assms(5) by simp
  have v2: "nodeField node2 key = Some (effectiveValue value2 fieldValue2)"
    using h2(1) [of key] assms(5) by simp
  have other: "name p \<noteq> [] \<and> name q \<noteq> name p \<and> fieldKey name3 fieldName3 = key \<longrightarrow>
              fst (createNodeField node1 name3 value3 fieldName3 fieldValue3 q traceId3) =
                Inl (FieldOwnedByAnotherPlugin (id node) (name q) key (effectiveValue value3 fieldValue3))
              \<and> fst (createNodeField node2 name3 value3 fieldName3 fieldValue3 q traceId3) =
                Inl (FieldOwnedByAnotherPlugin (id node) (name q) key (effectiveValue value3 fieldValue3))
              \<and> nodeField (fst (snd (createNodeField node2 name3 value3 fieldName3 fieldValue3 q traceId3))) key
                  = Some (effectiveValue value2 fieldValue2)
              \<and> nodeFieldOwner (fst (snd (createNodeField node2 name3 value3 fieldName3 fieldValue3 q traceId3))) key
                  = Some (name p)"
  proof
    assume h: "name p \<noteq> [] \<and> name q \<noteq> name p \<and> fieldKey name3 fieldName3 = key"
    have k3: "fieldKey name3 fieldName3 \<notin> set objectPrototypeKeys"
      using assms(2) h by simp
    have t1: "truthy_prop (readFieldOwner node1 (fieldKey name3 fieldName3))"
      and n1: "readFieldOwner node1 (fieldKey name3 fieldName3) \<noteq> Own (name q)"
      using o1 h readFieldOwner_ordinary [OF f1(2) k3] by auto
    have t2: "truthy_prop (readFieldOwner node2 (fieldKey name3 fieldName3))"
      and n2: "readFieldOwner node2 (fieldKey name3 fieldName3) \<noteq> Own (name q)"
      using o2 h readFieldOwner_ordinary [OF f2(2) k3] by auto
    show "fst (createNodeField node1 name3 value3 fieldName3 fieldValue3 q traceId3) =
                Inl (FieldOwnedByAnotherPlugin (id node) (name q) key (effectiveValue value3 fieldValue3))
              \<and> fst (createNodeField node2 name3 value3 fieldName3 fieldValue3 q traceId3) =
                Inl (FieldOwnedByAnotherPlugin (id node) (name q) key (effectiveValue value3 fieldValue3))
              \<and> nodeField (fst (snd (createNodeField node2 name3 value3 fieldName3 fieldValue3 q traceId3))) key
                  = Some (effectiveValue value2 fieldValue2)
              \<and> nodeFieldOwner (fst (snd (createNodeField node2 name3 value3 fieldName3 fieldValue3 q traceId3))) key
                  = Some (name p)"
      unfolding createNodeField_denied [OF f1(2) t1 n1] createNodeField_denied [OF f2(2) t2 n2]
      using h f1(3) f2(3) f2(2) v2 o2 by simp
  qed
  show ?thesis using f1(1) f2(1) v1 v2 o1 o2 other by blast
qed

lemmas createNodeField_eval = createNodeField_def fieldKey_def effectiveName_def effectiveValue_def
  deprecations_def nodeField_def nodeFieldOwner_def getProperty_def setProperty_def
  objectPrototypeKeys_def Let_def

lemma createNodeField_of_ordinary_names_example:
  "createNodeField slug_node (Some ''slug'') (JStr ''/first/'') None JUndefined plugin_b None =
     (Inr (ADD_FIELD_TO_NODE plugin_b None slug_node1), slug_node1, [])
   \<and> createNodeField slug_node1 (Some ''slug'') (JStr ''/second/'') None JUndefined plugin_b None =
     (Inr (ADD_FIELD_TO_NODE plugin_b None slug_node2), slug_node2, [])
   \<and> nodeField slug_node2 ''slug'' = Some (JStr ''/second/'')
   \<and> nodeFieldOwner slug_node1 ''slug'' = Some ''gatsby-source-b''
   \<and> fst (createNodeField slug_node2 (Some ''slug'') (JStr ''/third/'') None JUndefined plugin_a None) =
       Inl (FieldOwnedByAnotherPlugin ''post-1 >>> gatsby-source-a'' ''gatsby-source-a'' ''slug''
              (JStr ''/third/''))"
proof -
  have i: "internal slug_node \<noteq> None" by (simp add: slug_node_def)
  have u: "\<not> truthy_str (nodeFieldOwner slug_node ''slug'')
           \<or> nodeFieldOwner slug_node ''slug'' = Some (name plugin_b)"
    by (simp add: slug_node_def nodeFieldOwner_def)
  have k: "fieldKey (Some ''slug'') None = ''slug''"
    by (simp add: fieldKey_def effectiveName_def)
  have c1: "createNodeField slug_node (Some ''slug'') (JStr ''/first/'') None JUndefined plugin_b None =
     (Inr (ADD_FIELD_TO_NODE plugin_b None slug_node1), slug_node1, [])"
    by (simp add: slug_node_def slug_node1_def plugin_b_def createNodeField_eval)
  have c2: "createNodeField slug_node1 (Some ''slug'') (JStr ''/second/'') None JUndefined plugin_b None =
     (Inr (ADD_FIELD_TO_NODE plugin_b None slug_node2), slug_node2, [])"
    by (simp add: slug_node1_def slug_node2_def plugin_b_def createNodeField_eval)
  have q: "name plugin_b \<noteq> [] \<and> name plugin_a \<noteq> name plugin_b \<and> fieldKey (Some ''slug'') None = ''slug''"
    by (simp add: plugin_a_def plugin_b_def fieldKey_def effectiveName_def)
  have e: "effectiveValue (JStr ''/second/'') JUndefined = JStr ''/second/''"
    "effectiveValue (JStr ''/third/'') JUndefined = JStr ''/third/''"
    "name plugin_b = ''gatsby-source-b''" "name plugin_a = ''gatsby-source-a''"
    "id slug_node = ''post-1 >>> gatsby-source-a''"
    by (simp_all add: effectiveValue_def plugin_a_def plugin_b_def slug_node_def)
  have ord: "''slug'' \<notin> set objectPrototypeKeys" by (simp add: objectPrototypeKeys_def)
  show ?thesis
    using createNodeField_of_ordinary_names [OF i ord u k k c1 c2,
        of plugin_a "Some ''slug''" None "JStr ''/third/''" JUndefined None] q c1 c2
    unfolding e
    by simp
qed



text \<open>
  C5 fails on the code for a field named like a property of \<^verbatim>\<open>Object.prototype\<close>. No
  plugin owns the field \<^verbatim>\<open>constructor\<close> of the node, and the first call of
  \<^verbatim>\<open>createNodeField\<close> for it does not succeed: the \<^verbatim>\<open>fieldOwners\<close> object that line
  515 creates is an ordinary object, so line 522 reads the inherited
  \<^verbatim>\<open>Object.prototype.constructor\<close>, which is truthy and is not the plugin's name, and
  line 524 throws the error of a field that the plugin does not own. The node is left
  with empty \<^verbatim>\<open>fields\<close> and \<^verbatim>\<open>internal.fieldOwners\<close> objects, so every later call
  for the field ends the same way.
\<close>

theorem first_field_named_constructor_rejected:
  "nodeFieldOwner slug_node ''constructor'' = None
   \<and> createNodeField slug_node (Some ''constructor'') (JStr ''Post'') None JUndefined plugin_b None =
       (Inl (FieldOwnedByAnotherPlugin ''post-1 >>> gatsby-source-a'' ''gatsby-source-b''
               ''constructor'' (JStr ''Post'')),
        withContainers slug_node, [])
   \<and> nodeField (withContainers slug_node) ''constructor'' = None
   \<and> nodeFieldOwner (withContainers slug_node) ''constructor'' = None"
proof -
  have i: "internal slug_node \<noteq> None" by (simp add: slug_node_def)
  have k: "fieldKey (Some ''constructor'') None = ''constructor''"
    by (simp add: fieldKey_def effectiveName_def)
  have m: "fieldKey (Some ''constructor'') None \<in> set objectPrototypeKeys"
    unfolding k by (simp add: objectPrototypeKeys_def)
  have u: "nodeFieldOwner slug_node (fieldKey (Some ''constructor'') None) = None"
    unfolding k by (simp add: slug_node_def nodeFieldOwner_def)
  have e: "effectiveValue (JStr ''Post'') JUndefined = JStr ''Post''"
    "deprecations None JUndefined = []"
    "id slug_node = ''post-1 >>> gatsby-source-a''" "name plugin_b = ''gatsby-source-b''"
    by (simp_all add: effectiveValue_def deprecations_def slug_node_def plugin_b_def)
  have f: "nodeField slug_node ''constructor'' = None"
    by (simp add: slug_node_def nodeField_def)
  show ?thesis
    using createNodeField_inherited [OF i m u, of "JStr ''Post''" JUndefined plugin_b None] u f i
    unfolding k e by simp
qed

subsection \<open>What a failed call leaves behind\<close>

















end
